theory Spec2Isabelle
  imports
    Main
    "HOL-Library.Char_ord"
    "HOL-Library.List_Lexorder"
    "HOL-Library.Product_Lexorder"
    "HOL-Library.Multiset"
begin

section \<open>The ASK client of \<^verbatim>\<open>src/ask_api.py\<close>\<close>

text \<open>
  Python strings are sequences of code points. Here a string is a \<^typ>\<open>string\<close> whose
  characters are the code points below 256 (Basic Latin and Latin-1 Supplement): every
  name of the municipality registry lives there (c with cedilla is \<open>CHR 0xE7\<close>, e with
  diaeresis is \<open>CHR 0xEB\<close>). The order on strings (\<open>Char_ord\<close>, \<open>List_Lexorder\<close>) is then Python's:
  lexicographic by code point.
\<close>

subsection \<open>Python and pandas primitives used by the client\<close>

datatype py_error = KeyError string | IndexError | ValueError | OverflowError

text \<open>\<^verbatim>\<open>str.lower()\<close> on code points below 256: A-Z and the capital letters
  U+00C0..U+00DE (all but the multiplication sign U+00D7) move up by 32.\<close>

definition lower_char :: "char \<Rightarrow> char" where
  "lower_char c =
     (let n = (of_char c :: nat)
      in if (65 \<le> n \<and> n \<le> 90) \<or> (192 \<le> n \<and> n \<le> 222 \<and> n \<noteq> 215)
         then char_of (n + 32) else c)"

definition lower :: "string \<Rightarrow> string" where
  "lower s = map lower_char s"

text \<open>A slice \<^verbatim>\<open>xs[:k]\<close>: a negative stop counts from the end and is clamped at 0.\<close>

definition slice_to :: "'a list \<Rightarrow> int \<Rightarrow> 'a list" where
  "slice_to xs k =
     (if k < 0 then take (nat (int (length xs) + k)) xs else take (nat k) xs)"

text \<open>\<^verbatim>\<open>sep.join(xs)\<close>.\<close>

fun join :: "string \<Rightarrow> string list \<Rightarrow> string" where
  "join sep [] = []"
| "join sep [x] = x"
| "join sep (x # y # ys) = x @ sep @ join sep (y # ys)"

subsection \<open>The client state\<close>

record selection =
  code :: string
  filter_sel :: string
  values_sel :: "string list"

record query_dict =
  query_list :: "selection list"
  response_format :: string

record ASK =
  lang :: string
  base_url :: string
  current_path :: "string list"
  query :: query_dict

definition empty_query :: query_dict where
  "empty_query = \<lparr>query_list = [], response_format = ''json''\<rparr>"

definition init :: "string \<Rightarrow> ASK" where
  "init lg =
     \<lparr>lang = lg,
      base_url = ''http://askdata.rks-gov.net/api/v1/'' @ lg @ ''/ASKdata'',
      current_path = [],
      query = empty_query\<rparr>"

subsection \<open>Navigation\<close>

text \<open>\<^verbatim>\<open>go_down(*args)\<close> extends the path by its arguments, unchecked; the segments
  are strings (\<^verbatim>\<open>*args : str\<close>).\<close>

definition go_down :: "string list \<Rightarrow> ASK \<Rightarrow> ASK" where
  "go_down args self = self\<lparr>current_path := current_path self @ args\<rparr>"

text \<open>\<^verbatim>\<open>go_up(levels)\<close> is \<^verbatim>\<open>self.current_path = self.current_path[:-levels]\<close>.\<close>

definition go_up :: "int \<Rightarrow> ASK \<Rightarrow> ASK" where
  "go_up levels self = self\<lparr>current_path := slice_to (current_path self) (- levels)\<rparr>"

definition get_url :: "ASK \<Rightarrow> string" where
  "get_url self = base_url self @ ''/'' @ join ''/'' (current_path self)"

text \<open>A sequence of navigation calls, as a caller issues them.\<close>

datatype nav = Down "string list" | Up int

fun nav_step :: "nav \<Rightarrow> ASK \<Rightarrow> ASK" where
  "nav_step (Down args) self = go_down args self"
| "nav_step (Up levels) self = go_up levels self"

definition navigate_all :: "nav list \<Rightarrow> ASK \<Rightarrow> ASK" where
  "navigate_all ops self = fold nav_step ops self"

text \<open>The invariant of the catalog path: no segment is the empty string.\<close>

definition no_empty_segment :: "string list \<Rightarrow> bool" where
  "no_empty_segment p \<longleftrightarrow> [] \<notin> set p"

fun nonempty_args :: "nav \<Rightarrow> bool" where
  "nonempty_args (Down args) = ([] \<notin> set args)"
| "nonempty_args (Up levels) = True"

subsection \<open>The municipality registry\<close>

text \<open>\<^verbatim>\<open>self.municipality_map\<close>, code to name, in the order of the dict literal.\<close>

definition municipality_map :: "(string \<times> string) list" where
  "municipality_map =
    [(''0'', ''De'' @ [CHR 0xE7] @ ''an''),
     (''1'', ''Gjakov'' @ [CHR 0xEB]),
     (''2'', ''Gllogoc''),
     (''3'', ''Gjilan''),
     (''4'', ''Dragash''),
     (''5'', ''Istog''),
     (''6'', ''Ka'' @ [CHR 0xE7] @ ''anik''),
     (''7'', ''Klin'' @ [CHR 0xEB]),
     (''8'', ''Fush'' @ [CHR 0xEB] @ '' Kosov'' @ [CHR 0xEB]),
     (''9'', ''Kamenic'' @ [CHR 0xEB]),
     (''10'', ''Mitrovic'' @ [CHR 0xEB]),
     (''11'', ''Leposaviq''),
     (''12'', ''Lipjan''),
     (''13'', ''Novob'' @ [CHR 0xEB] @ ''rd'' @ [CHR 0xEB]),
     (''14'', ''Obiliq''),
     (''15'', ''Rahovec''),
     (''16'', ''Pej'' @ [CHR 0xEB]),
     (''17'', ''Podujev'' @ [CHR 0xEB]),
     (''18'', ''Prishtin'' @ [CHR 0xEB]),
     (''19'', ''Prizren''),
     (''20'', ''Skenderaj''),
     (''21'', ''Shtime''),
     (''22'', ''Sht'' @ [CHR 0xEB] @ ''rpc'' @ [CHR 0xEB]),
     (''23'', ''Suharek'' @ [CHR 0xEB]),
     (''24'', ''Ferizaj''),
     (''25'', ''Viti''),
     (''26'', ''Vushtrri''),
     (''27'', ''Zubin Potok''),
     (''28'', ''Zveqan''),
     (''29'', ''Malishev'' @ [CHR 0xEB]),
     (''30'', ''Junik''),
     (''31'', ''Mamush'' @ [CHR 0xEB]),
     (''32'', ''Hani i Elezit''),
     (''33'', ''Gra'' @ [CHR 0xE7] @ ''anic'' @ [CHR 0xEB]),
     (''34'', ''Ranillug''),
     (''35'', ''Partesh''),
     (''36'', ''Kllokot''),
     (''37'', ''Mitrovic'' @ [CHR 0xEB] @ '' Veriore''),
     (''38'', ''Jasht'' @ [CHR 0xEB] @ '' Kosov'' @ [CHR 0xEB] @ ''s''),
     (''39'', ''Gjithsej'')]"

text \<open>A dict built from key-value pairs in order keeps the last value of a repeated key:
  \<open>map_of\<close> on the reversed list.\<close>

definition dict_get :: "('k \<times> 'v) list \<Rightarrow> 'k \<Rightarrow> 'v option" where
  "dict_get items k = map_of (rev items) k"

text \<open>\<^verbatim>\<open>{v.lower(): k for k, v in self.municipality_map.items()}\<close>\<close>

definition municipality_reverse_map :: "(string \<times> string) list" where
  "municipality_reverse_map = map (\<lambda>(k, v). (lower v, k)) municipality_map"

definition get_municipality_code :: "string \<Rightarrow> string option" where
  "get_municipality_code municipality = dict_get municipality_reverse_map (lower municipality)"

subsection \<open>Numbers and dates as text\<close>

definition digit_char :: "nat \<Rightarrow> char" where
  "digit_char n = char_of (48 + n)"

fun str_nat :: "nat \<Rightarrow> string" where
  "str_nat n = (if n < 10 then [digit_char n] else str_nat (n div 10) @ [digit_char (n mod 10)])"

declare str_nat.simps [simp del]

text \<open>\<^verbatim>\<open>str(i)\<close> for an integer.\<close>

definition str_int :: "int \<Rightarrow> string" where
  "str_int i = (if i < 0 then CHR ''-'' # str_nat (nat (- i)) else str_nat (nat i))"

text \<open>\<^verbatim>\<open>s.zfill(width)\<close>: zeros go after a leading sign.\<close>

definition zfill :: "nat \<Rightarrow> string \<Rightarrow> string" where
  "zfill width s =
     (case s of
        [] \<Rightarrow> replicate width CHR ''0''
      | c # r \<Rightarrow>
          if c = CHR ''+'' \<or> c = CHR ''-''
          then c # replicate (width - length s) CHR ''0'' @ r
          else replicate (width - length s) CHR ''0'' @ s)"

definition is_digit :: "char \<Rightarrow> bool" where
  "is_digit c \<longleftrightarrow> 48 \<le> (of_char c :: nat) \<and> (of_char c :: nat) \<le> 57"

definition digit_val :: "char \<Rightarrow> int" where
  "digit_val c = int (of_char c) - 48"

definition num_of :: "string \<Rightarrow> int" where
  "num_of s = foldl (\<lambda>a c. 10 * a + digit_val c) 0 s"

text \<open>A timestamp at midnight is (year, month, day); the lexicographic order of the
  triple is the order of time.\<close>

type_synonym timestamp = "int \<times> int \<times> int"

definition is_leap :: "int \<Rightarrow> bool" where
  "is_leap y \<longleftrightarrow> y mod 4 = 0 \<and> (y mod 100 \<noteq> 0 \<or> y mod 400 = 0)"

definition days_in_month :: "int \<Rightarrow> int \<Rightarrow> int" where
  "days_in_month y m =
     (if m = 2 then (if is_leap y then 29 else 28)
      else if m = 4 \<or> m = 6 \<or> m = 9 \<or> m = 11 then 30 else 31)"

text \<open>pandas 2 keeps nanosecond timestamps: a midnight must lie between 1677-09-22 and
  2262-04-11.\<close>

definition mk_timestamp :: "int \<Rightarrow> int \<Rightarrow> int \<Rightarrow> py_error + timestamp" where
  "mk_timestamp y m d =
     (if 1 \<le> m \<and> m \<le> 12 \<and> 1 \<le> d \<and> d \<le> days_in_month y m
         \<and> (1677, 9, 22) \<le> (y, m, d) \<and> (y, m, d) \<le> (2262, 4, 11)
      then Inr (y, m, d) else Inl ValueError)"

text \<open>
  \<^verbatim>\<open>pd.to_datetime(s)\<close> on one string, for the ISO forms \<^verbatim>\<open>YYYY-MM\<close> (the form of the
  docstring and of the callers; the day is then 1) and \<^verbatim>\<open>YYYY-MM-DD\<close>. pandas reads
  further formats; here every other string is the \<open>ValueError\<close> of an unreadable date,
  and no result below rests on that for a string pandas can read.
\<close>

definition to_datetime :: "string \<Rightarrow> py_error + timestamp" where
  "to_datetime s =
     (if length s = 7 \<and> list_all is_digit (take 4 s) \<and> s ! 4 = CHR ''-''
           \<and> list_all is_digit (drop 5 s)
      then mk_timestamp (num_of (take 4 s)) (num_of (drop 5 s)) 1
      else if length s = 10 \<and> list_all is_digit (take 4 s) \<and> s ! 4 = CHR ''-''
           \<and> list_all is_digit (take 2 (drop 5 s)) \<and> s ! 7 = CHR ''-''
           \<and> list_all is_digit (drop 8 s)
      then mk_timestamp (num_of (take 4 s)) (num_of (take 2 (drop 5 s))) (num_of (drop 8 s))
      else Inl ValueError)"

text \<open>Months are counted from year 0: month \<open>n\<close> is month \<open>n mod 12 + 1\<close> of year
  \<open>n div 12\<close>.\<close>

definition month_index :: "timestamp \<Rightarrow> int" where
  "month_index t = (case t of (y, m, d) \<Rightarrow> 12 * y + (m - 1))"

definition month_end :: "int \<Rightarrow> timestamp" where
  "month_end n = (let y = n div 12; m = n mod 12 + 1 in (y, m, days_in_month y m))"

text \<open>
  \<^verbatim>\<open>pd.date_range(start, end, freq='M')\<close>: the frequency \<^verbatim>\<open>'M'\<close> is month END, so the
  range holds the last day of a month for each month whose last day lies between
  \<open>start\<close> and \<open>end\<close>, both included, in ascending order.
\<close>

definition date_range_M :: "timestamp \<Rightarrow> timestamp \<Rightarrow> timestamp list" where
  "date_range_M start_ts end_ts =
     filter (\<lambda>d. start_ts \<le> d \<and> d \<le> end_ts)
       (map month_end [month_index start_ts .. month_index end_ts])"

text \<open>\<^verbatim>\<open>d.strftime('%YM%m')\<close>\<close>

definition strftime_YMm :: "timestamp \<Rightarrow> string" where
  "strftime_YMm t = (case t of (y, m, d) \<Rightarrow> zfill 4 (str_int y) @ ''M'' @ zfill 2 (str_int m))"

subsection \<open>Building the query\<close>

text \<open>The arguments of \<^verbatim>\<open>set_query\<close>: \<^verbatim>\<open>Union[List[str], str]\<close> and
  \<^verbatim>\<open>Union[int, str]\<close>, each \<open>None\<close> by default.\<close>

datatype str_or_list = Str string | Lst "string list"

datatype int_or_str = IntV int | StrV string

record set_query_args =
  municipalities :: "str_or_list option"
  months :: "str_or_list option"
  year :: "int_or_str option"
  start_date :: "string option"
  end_date :: "string option"

definition no_args :: set_query_args where
  "no_args = \<lparr>municipalities = None, months = None, year = None,
               start_date = None, end_date = None\<rparr>"

text \<open>Python's truth value of an argument that is not \<open>None\<close> (\<open>None\<close> itself is
  false).\<close>

fun truthy_sl :: "str_or_list \<Rightarrow> bool" where
  "truthy_sl (Str s) = (s \<noteq> [])"
| "truthy_sl (Lst l) = (l \<noteq> [])"

fun truthy_is :: "int_or_str \<Rightarrow> bool" where
  "truthy_is (IntV i) = (i \<noteq> 0)"
| "truthy_is (StrV s) = (s \<noteq> [])"

text \<open>\<^verbatim>\<open>if isinstance(x, str): x = [x]\<close>\<close>

fun as_list :: "str_or_list \<Rightarrow> string list" where
  "as_list (Str s) = [s]"
| "as_list (Lst l) = l"

definition clear_query :: "ASK \<Rightarrow> ASK" where
  "clear_query self = self\<lparr>query := empty_query\<rparr>"

definition item_selection :: "string \<Rightarrow> string list \<Rightarrow> selection" where
  "item_selection c vs = \<lparr>code = c, filter_sel = ''item'', values_sel = vs\<rparr>"

definition warning :: "string \<Rightarrow> string" where
  "warning muni = ''Warning: Municipality '' @ [CHR 0x27] @ muni @ [CHR 0x27] @ '' not found''"

text \<open>The loop over the names: the codes found, in order, and the lines printed.\<close>

fun municipality_loop :: "string list \<Rightarrow> string list \<times> string list" where
  "municipality_loop [] = ([], [])"
| "municipality_loop (muni # rest) =
     (let (codes, printed) = municipality_loop rest
      in case get_municipality_code muni of
           Some c \<Rightarrow> if c \<noteq> [] then (c # codes, printed) else (codes, warning muni # printed)
         | None \<Rightarrow> (codes, warning muni # printed))"

text \<open>\<^verbatim>\<open>self.query["query"].append(sel)\<close>\<close>

definition append_selection :: "selection \<Rightarrow> ASK \<Rightarrow> ASK" where
  "append_selection sel self =
     self\<lparr>query := (query self)\<lparr>query_list := query_list (query self) @ [sel]\<rparr>\<rparr>"

definition year_months :: "int_or_str \<Rightarrow> string list" where
  "year_months y =
     (let year_str = (case y of IntV i \<Rightarrow> str_int i | StrV s \<Rightarrow> s)
      in map (\<lambda>m. year_str @ ''M'' @ zfill 2 (str_int m)) [1 .. 12])"

text \<open>The block "Process municipalities": the client with the geography selection
  appended when a name resolved, and the lines printed.\<close>

definition process_municipalities :: "str_or_list option \<Rightarrow> ASK \<Rightarrow> ASK \<times> string list" where
  "process_municipalities munis self =
     (case munis of
        None \<Rightarrow> (self, [])
      | Some ms \<Rightarrow>
          if truthy_sl ms
          then (let (municipality_codes, out) = municipality_loop (as_list ms)
                in (if municipality_codes \<noteq> []
                    then append_selection (item_selection ''Komuna'' municipality_codes) self
                    else self, out))
          else (self, []))"

text \<open>The date range of \<^verbatim>\<open>set_query\<close>: both dates are parsed, then every date of the
  range is printed as a period token. A date that cannot be read raises.\<close>

definition range_months :: "string \<Rightarrow> string \<Rightarrow> py_error + string list" where
  "range_months sd ed =
     (case to_datetime sd of
        Inl e \<Rightarrow> Inl e
      | Inr start_ts \<Rightarrow>
          (case to_datetime ed of
             Inl e \<Rightarrow> Inl e
           | Inr end_ts \<Rightarrow> Inr (map strftime_YMm (date_range_M start_ts end_ts))))"

text \<open>The block "Process dates" up to its last \<^verbatim>\<open>if\<close>: the list \<^verbatim>\<open>date_values\<close>, or the
  exception of an unreadable date.\<close>

definition collect_date_values :: "set_query_args \<Rightarrow> py_error + string list" where
  "collect_date_values a =
     (let date_values1 =
            (case months a of
               None \<Rightarrow> []
             | Some mo \<Rightarrow> if truthy_sl mo then as_list mo else []);
          date_values2 =
            date_values1 @
            (case year a of
               None \<Rightarrow> []
             | Some y \<Rightarrow> if truthy_is y then year_months y else [])
      in case (start_date a, end_date a) of
           (Some sd, Some ed) \<Rightarrow>
             if sd \<noteq> [] \<and> ed \<noteq> []
             then (case range_months sd ed of
                     Inl e \<Rightarrow> Inl e
                   | Inr ds \<Rightarrow> Inr (date_values2 @ ds))
             else Inr date_values2
         | _ \<Rightarrow> Inr date_values2)"

text \<open>
  \<^verbatim>\<open>set_query\<close> returns the client after the call, the lines it printed, and the
  exception that ended it, if any (the client then keeps what had been built so far).
\<close>

definition set_query :: "set_query_args \<Rightarrow> ASK \<Rightarrow> ASK \<times> string list \<times> py_error option" where
  "set_query a self =
     (let self1 = clear_query self;
          (self2, printed) = process_municipalities (municipalities a) self1
      in case collect_date_values a of
           Inl e \<Rightarrow> (self2, printed, Some e)
         | Inr date_values \<Rightarrow>
             (if date_values \<noteq> []
              then append_selection
                     (item_selection ''Viti-muaji'' (sort (remdups date_values))) self2
              else self2, printed, None))"

definition get_query :: "ASK \<Rightarrow> query_dict" where
  "get_query self = query self"

subsection \<open>Normalising a response\<close>

text \<open>
  The body of a data response is a JSON object. The model keeps its \<^verbatim>\<open>'data'\<close> entry
  when the key is there, and the names of its other keys. A row entry is an object with a
  \<^verbatim>\<open>'key'\<close> and a \<^verbatim>\<open>'values'\<close> list of strings, of any length.
\<close>

record raw_item =
  key :: "string list"
  values_item :: "string list"

record raw_response =
  data :: "raw_item list option"
  other_keys :: "string list"

text \<open>A row: of the list \<^verbatim>\<open>rows\<close> (the period token and \<^verbatim>\<open>int\<close> or \<open>None\<close>), and of
  the frame (a timestamp or \<open>NaT\<close>, and a cell of the column pandas built).\<close>

record ('d, 'm) row =
  Date :: 'd
  Municipality_Code :: string
  Municipality :: string
  Marriages :: 'm

text \<open>\<^verbatim>\<open>xs[i]\<close> for \<open>i \<ge> 0\<close>.\<close>

definition subscript :: "'a list \<Rightarrow> nat \<Rightarrow> py_error + 'a" where
  "subscript xs i = (if i < length xs then Inr (xs ! i) else Inl IndexError)"

text \<open>
  \<^verbatim>\<open>int(s)\<close> on a string of code points below 256: the blanks U+0009..U+000D, U+0020,
  U+0085 and U+00A0 around it are dropped, then comes an optional sign and decimal digits,
  where single underscores may stand between digits. More than 4300 digits are refused
  (the interpreter's default limit).
\<close>

definition is_space :: "char \<Rightarrow> bool" where
  "is_space c \<longleftrightarrow>
     (let n = (of_char c :: nat)
      in (9 \<le> n \<and> n \<le> 13) \<or> n = 32 \<or> n = 133 \<or> n = 160)"

definition strip :: "string \<Rightarrow> string" where
  "strip s = rev (dropWhile is_space (rev (dropWhile is_space s)))"

fun digits_value :: "int \<Rightarrow> string \<Rightarrow> int option" where
  "digits_value acc [] = Some acc"
| "digits_value acc (c # cs) =
     (if is_digit c then digits_value (10 * acc + digit_val c) cs
      else if c = CHR ''_'' \<and> cs \<noteq> [] \<and> is_digit (hd cs) then digits_value acc cs
      else None)"

definition unsigned_value :: "string \<Rightarrow> int option" where
  "unsigned_value s =
     (if s \<noteq> [] \<and> is_digit (hd s) \<and> length (filter is_digit s) \<le> 4300
      then digits_value 0 s else None)"

definition py_int :: "string \<Rightarrow> int option" where
  "py_int s =
     (case strip s of
        [] \<Rightarrow> None
      | c # r \<Rightarrow>
          if c = CHR ''-'' then map_option uminus (unsigned_value r)
          else if c = CHR ''+'' then unsigned_value r
          else unsigned_value (c # r))"

text \<open>The body of the loop over \<^verbatim>\<open>data['data']\<close>: one row, or the exception the entry
  raises.\<close>

definition municipality_name :: "string \<Rightarrow> string" where
  "municipality_name municipality_code =
     (case dict_get municipality_map municipality_code of
        Some n \<Rightarrow> n
      | None \<Rightarrow> ''Unknown ('' @ municipality_code @ '')'')"

definition process_item :: "raw_item \<Rightarrow> py_error + (string, int option) row" where
  "process_item item =
     (case subscript (key item) 0 of
        Inl e \<Rightarrow> Inl e
      | Inr date \<Rightarrow>
     (case subscript (key item) 1 of
        Inl e \<Rightarrow> Inl e
      | Inr municipality_code \<Rightarrow>
     (case subscript (values_item item) 0 of
        Inl e \<Rightarrow> Inl e
      | Inr marriages \<Rightarrow>
     (case (if marriages = '':'' then Inr None
            else (case py_int marriages of None \<Rightarrow> Inl ValueError | Some n \<Rightarrow> Inr (Some n))) of
        Inl e \<Rightarrow> Inl e
      | Inr m \<Rightarrow>
          Inr \<lparr>Date = date, Municipality_Code = municipality_code,
               Municipality = municipality_name municipality_code, Marriages = m\<rparr>))))"

fun process_items :: "raw_item list \<Rightarrow> py_error + (string, int option) row list" where
  "process_items [] = Inr []"
| "process_items (item # rest) =
     (case process_item item of
        Inl e \<Rightarrow> Inl e
      | Inr r \<Rightarrow> (case process_items rest of Inl e \<Rightarrow> Inl e | Inr rs \<Rightarrow> Inr (r # rs)))"

text \<open>
  \<^verbatim>\<open>pd.DataFrame(rows)\<close> builds each column from the Python objects of the rows
  (\<^verbatim>\<open>lib.maybe_convert_objects\<close>). For the column \<open>Marriages\<close>, of integers and \<open>None\<close>,
  every integer is first turned into a float64, which raises for an integer that is too
  large. Before the first \<open>None\<close> each integer is also checked for the 64-bit ranges, and
  the column stays one of Python objects as soon as one lies outside them or a negative
  one meets one above the signed range. Otherwise a column with a \<open>None\<close> and an integer
  is float64, where \<open>None\<close> is \<open>NaN\<close> and each integer the nearest float; any other column
  holds its integers as they are.
\<close>

datatype cell = IntCell int | FloatCell int | NaN | NoneCell

fun bit_length :: "nat \<Rightarrow> nat" where
  "bit_length n = (if n = 0 then 0 else Suc (bit_length (n div 2)))"

declare bit_length.simps [simp del]

text \<open>The float64 nearest to a natural number, ties to even: 53 bits are kept.\<close>

definition round_to_53 :: "nat \<Rightarrow> nat" where
  "round_to_53 a =
     (let k = bit_length a - 53; q = a div 2 ^ k; r = a mod 2 ^ k
      in if k = 0 then a
         else if 2 ^ (k - 1) < r \<or> (r = 2 ^ (k - 1) \<and> odd q) then (q + 1) * 2 ^ k
         else q * 2 ^ k)"

definition float_value :: "int \<Rightarrow> int" where
  "float_value v = sgn v * int (round_to_53 (nat \<bar>v\<bar>))"

definition to_float64 :: "int \<Rightarrow> py_error + int" where
  "to_float64 v =
     (if 2 ^ 1024 \<le> round_to_53 (nat \<bar>v\<bar>) then Inl OverflowError else Inr (float_value v))"

definition INT64_MIN :: int where "INT64_MIN = - (2 ^ 63)"

definition INT64_MAX :: int where "INT64_MAX = 2 ^ 63 - 1"

definition UINT64_MAX :: int where "UINT64_MAX = 2 ^ 64 - 1"

record seen =
  seen_null :: bool
  seen_int :: bool
  seen_uint :: bool
  seen_sint :: bool

definition nothing_seen :: seen where
  "nothing_seen = \<lparr>seen_null = False, seen_int = False, seen_uint = False, seen_sint = False\<rparr>"

text \<open>The scan of the column: what was seen at its end, or \<open>None\<close> when the scan stopped
  at an integer that keeps the column one of objects.\<close>

fun scan_objects :: "int option list \<Rightarrow> seen \<Rightarrow> py_error + seen option" where
  "scan_objects [] s = Inr (Some s)"
| "scan_objects (None # vs) s = scan_objects vs (s\<lparr>seen_null := True\<rparr>)"
| "scan_objects (Some v # vs) s =
     (case to_float64 v of
        Inl e \<Rightarrow> Inl e
      | Inr f \<Rightarrow>
          if seen_null s then scan_objects vs (s\<lparr>seen_int := True\<rparr>)
          else (let s' = s\<lparr>seen_int := True,
                           seen_uint := seen_uint s \<or> (INT64_MAX < v \<and> v \<le> UINT64_MAX),
                           seen_sint := seen_sint s \<or> (INT64_MIN \<le> v \<and> v < 0)\<rparr>
                in if (seen_uint s' \<and> seen_sint s') \<or> UINT64_MAX < v \<or> v < INT64_MIN
                   then Inr None else scan_objects vs s'))"

datatype column_kind = Exact | Float64

definition convert_column :: "int option list \<Rightarrow> py_error + column_kind" where
  "convert_column vs =
     (case scan_objects vs nothing_seen of
        Inl e \<Rightarrow> Inl e
      | Inr None \<Rightarrow> Inr Exact
      | Inr (Some s) \<Rightarrow> if seen_null s \<and> seen_int s then Inr Float64 else Inr Exact)"

fun cell_of :: "column_kind \<Rightarrow> int option \<Rightarrow> cell" where
  "cell_of Exact None = NoneCell"
| "cell_of Exact (Some v) = IntCell v"
| "cell_of Float64 None = NaN"
| "cell_of Float64 (Some v) = FloatCell (float_value v)"

definition with_marriages :: "'n \<Rightarrow> ('d, 'm) row \<Rightarrow> ('d, 'n) row" where
  "with_marriages c r =
     \<lparr>Date = Date r, Municipality_Code = Municipality_Code r,
      Municipality = Municipality r, Marriages = c\<rparr>"

text \<open>The frame is the list of its rows, each with its row label; a new frame is
  labelled 0, 1, 2, ... in the order of \<^verbatim>\<open>rows\<close>.\<close>

type_synonym ('d, 'm) frame = "(nat \<times> ('d, 'm) row) list"

definition DataFrame :: "(string, int option) row list \<Rightarrow> py_error + (string, cell) frame" where
  "DataFrame rows =
     (case convert_column (map Marriages rows) of
        Inl e \<Rightarrow> Inl e
      | Inr kind \<Rightarrow>
          Inr (enumerate 0 (map (\<lambda>r. with_marriages (cell_of kind (Marriages r)) r) rows)))"

text \<open>
  \<^verbatim>\<open>pd.to_datetime(col.str.replace('M', '-'), format='%Y-%m')\<close>, as pandas 2 reads one
  cell: every \<open>M\<close> becomes \<open>-\<close>; the empty text and the texts pandas takes for a missing
  date give \<open>NaT\<close>; four digits of year, \<open>-\<close> and a month of one or two digits give the
  first day of that month, which must lie in the range of a nanosecond timestamp
  (1677-09-22 to 2262-04-11); \<^verbatim>\<open>now\<close> and \<^verbatim>\<open>today\<close> give the reading of the clock; any
  other text raises. A point in time is a day and the nanoseconds into it; the clock is
  read once for each cell, so it is a function of the position of the cell.
\<close>

type_synonym instant = "timestamp \<times> nat"

definition replace_M :: "string \<Rightarrow> string" where
  "replace_M s = map (\<lambda>c. if c = CHR ''M'' then CHR ''-'' else c) s"

definition nat_strings :: "string list" where
  "nat_strings = [''NaT'', ''nat'', ''NAT'', ''nan'', ''NaN'', ''NAN'']"

definition reads_clock :: "string \<Rightarrow> bool" where
  "reads_clock s \<longleftrightarrow> s = ''now'' \<or> s = ''today''"

definition strptime_Ym :: "instant \<Rightarrow> string \<Rightarrow> py_error + instant option" where
  "strptime_Ym now s =
     (if s = [] \<or> s \<in> set nat_strings then Inr None
      else if (length s = 6 \<or> length s = 7) \<and> list_all is_digit (take 4 s)
              \<and> s ! 4 = CHR ''-'' \<and> list_all is_digit (drop 5 s)
      then (case mk_timestamp (num_of (take 4 s)) (num_of (drop 5 s)) 1 of
              Inl e \<Rightarrow> Inl e
            | Inr t \<Rightarrow> Inr (Some (t, 0)))
      else if reads_clock s then Inr (Some now)
      else Inl ValueError)"

text \<open>\<^verbatim>\<open>df['Date'] = ...\<close>: the column \<open>Date\<close> is replaced, the other columns stay.\<close>

definition with_date :: "'e \<Rightarrow> ('d, 'm) row \<Rightarrow> ('e, 'm) row" where
  "with_date t r =
     \<lparr>Date = t, Municipality_Code = Municipality_Code r,
      Municipality = Municipality r, Marriages = Marriages r\<rparr>"

fun convert_dates ::
  "(nat \<Rightarrow> instant) \<Rightarrow> (string, 'm) frame \<Rightarrow> py_error + (instant option, 'm) frame" where
  "convert_dates clock [] = Inr []"
| "convert_dates clock ((i, r) # rs) =
     (case strptime_Ym (clock i) (replace_M (Date r)) of
        Inl e \<Rightarrow> Inl e
      | Inr t \<Rightarrow>
          (case convert_dates clock rs of
             Inl e \<Rightarrow> Inl e
           | Inr ts \<Rightarrow> Inr ((i, with_date t r) # ts)))"

text \<open>\<^verbatim>\<open>df.sort_values(['Date', 'Municipality'])\<close>: a stable sort, ascending by the pair,
  where a row with no date comes after every row with a date; each row keeps its label.\<close>

fun date_rank :: "instant option \<Rightarrow> bool \<times> instant" where
  "date_rank None = (True, ((0, 0, 0), 0))"
| "date_rank (Some t) = (False, t)"

definition sort_key_of :: "(instant option, 'm) row \<Rightarrow> (bool \<times> instant) \<times> string" where
  "sort_key_of r = (date_rank (Date r), Municipality r)"

definition sort_values :: "(instant option, 'm) frame \<Rightarrow> (instant option, 'm) frame" where
  "sort_values df = sort_key (\<lambda>p. sort_key_of (snd p)) df"

text \<open>
  \<^verbatim>\<open>get_data_as_df\<close>, from the clock and the value \<^verbatim>\<open>get_data()\<close> handed back (\<open>None\<close>
  after a failed request): \<open>Inl\<close> is the exception raised, \<open>Inr None\<close> the return of
  \<open>None\<close>, \<open>Inr (Some df)\<close> the frame. An empty response object is false in Python. A
  frame built from no rows has no column, so \<^verbatim>\<open>df['Date']\<close> raises.
\<close>

definition get_data_as_df ::
  "(nat \<Rightarrow> instant) \<Rightarrow> raw_response option \<Rightarrow> py_error + (instant option, cell) frame option" where
  "get_data_as_df clock response =
     (case response of
        None \<Rightarrow> Inr None
      | Some d \<Rightarrow>
          if data d = None \<and> other_keys d = [] then Inr None
          else (case data d of
                  None \<Rightarrow> Inl (KeyError ''data'')
                | Some items \<Rightarrow>
                    (case process_items items of
                       Inl e \<Rightarrow> Inl e
                     | Inr rows \<Rightarrow>
                         if rows = [] then Inl (KeyError ''Date'')
                         else (case DataFrame rows of
                                 Inl e \<Rightarrow> Inl e
                               | Inr df \<Rightarrow>
                                   (case convert_dates clock df of
                                      Inl e \<Rightarrow> Inl e
                                    | Inr df' \<Rightarrow> Inr (Some (sort_values df')))))))"

text \<open>An entry that reads the clock, and a metric value in the signed 64-bit range.\<close>

definition clock_free :: "raw_item \<Rightarrow> bool" where
  "clock_free item \<longleftrightarrow> (case key item of [] \<Rightarrow> True | d # ks \<Rightarrow> \<not> reads_clock d)"

definition in_int64 :: "raw_item \<Rightarrow> bool" where
  "in_int64 item \<longleftrightarrow>
     (case values_item item of
        [] \<Rightarrow> True
      | v # vs \<Rightarrow>
          (case py_int v of None \<Rightarrow> True | Some n \<Rightarrow> INT64_MIN \<le> n \<and> n \<le> INT64_MAX))"

text \<open>
  For an entry that raises nothing: its row of \<^verbatim>\<open>rows\<close>, and its row of the frame in a
  column of the given kind when the clock reads \<open>now\<close>; for one that does not read the
  clock, its date and its row of the frame. With metric values in the signed 64-bit range
  the column is one of floats exactly when a value is missing and another is not.
\<close>

definition item_row :: "raw_item \<Rightarrow> (string, int option) row" where
  "item_row item = projr (process_item item)"

definition item_date :: "raw_item \<Rightarrow> py_error + instant option" where
  "item_date item = strptime_Ym ((0, 0, 0), 0) (replace_M (Date (item_row item)))"

definition plain_kind :: "raw_item list \<Rightarrow> column_kind" where
  "plain_kind items =
     (if (\<exists>it\<in>set items. Marriages (item_row it) = None)
         \<and> (\<exists>it\<in>set items. Marriages (item_row it) \<noteq> None)
      then Float64 else Exact)"

definition frame_row :: "column_kind \<Rightarrow> instant \<Rightarrow> raw_item \<Rightarrow> (instant option, cell) row" where
  "frame_row kind now item =
     with_date (projr (strptime_Ym now (replace_M (Date (item_row item)))))
       (with_marriages (cell_of kind (Marriages (item_row item))) (item_row item))"

definition plain_row :: "column_kind \<Rightarrow> raw_item \<Rightarrow> (instant option, cell) row" where
  "plain_row kind item = frame_row kind ((0, 0, 0), 0) item"

section \<open>Properties\<close>

subsection \<open>Navigation\<close>

lemma slice_to_set: "set (slice_to xs k) \<subseteq> set xs"
  by (auto simp: slice_to_def dest: in_set_takeD)

lemma go_up_keeps_invariant:
  "no_empty_segment (current_path self) \<Longrightarrow> no_empty_segment (current_path (go_up levels self))"
  using slice_to_set [of "current_path self" "- levels"]
  by (auto simp: go_up_def no_empty_segment_def)

lemma go_down_keeps_invariant:
  "no_empty_segment (current_path self) \<Longrightarrow> [] \<notin> set args \<Longrightarrow>
   no_empty_segment (current_path (go_down args self))"
  by (simp add: go_down_def no_empty_segment_def)

lemma nav_step_keeps_invariant:
  "no_empty_segment (current_path self) \<Longrightarrow> nonempty_args op \<Longrightarrow>
   no_empty_segment (current_path (nav_step op self))"
  by (cases op) (simp_all add: go_up_keeps_invariant go_down_keeps_invariant)

text \<open>For a positive \<open>levels\<close> the slice drops that many trailing segments, and all of
  them when \<open>levels\<close> is more than the depth.\<close>

lemma go_up_positive:
  "0 < levels \<Longrightarrow>
   current_path (go_up levels self) =
     take (length (current_path self) - nat levels) (current_path self)"
  apply (simp add: go_up_def slice_to_def)
  apply (rule arg_cong [where f = "\<lambda>n. take n (current_path self)"])
  apply linarith
  done

lemma go_up_beyond_depth:
  "int (length (current_path self)) < levels \<Longrightarrow> current_path (go_up levels self) = []"
  by (simp add: go_up_def slice_to_def)

text \<open>
  Claim C6. \<^verbatim>\<open>go_up\<close> with \<open>levels\<close> beyond the depth leaves the path at root, and with
  \<open>levels\<close> up to the depth it removes exactly that many trailing segments. The first
  half holds (\<open>go_up_beyond_depth\<close>), and so does the second for \<open>levels \<ge> 1\<close>
  (\<open>go_up_positive\<close>). For \<open>levels = 0\<close> the slice \<^verbatim>\<open>[:-0]\<close> is \<^verbatim>\<open>[:0]\<close>: on the path
  \<open>a/b\<close> the call removes both segments where the claim removes none.
\<close>

theorem go_up_zero_after_two_segments:
  "current_path (go_down [''a'', ''b''] (init ''sq'')) = [''a'', ''b'']
   \<and> current_path (go_up 0 (go_down [''a'', ''b''] (init ''sq''))) = []"
  by (simp add: go_up_def go_down_def init_def slice_to_def)

text \<open>
  Claim C9. For every path, \<^verbatim>\<open>go_up(0)\<close> leaves the path at root: it removes every
  segment, not zero segments.
\<close>

theorem go_up_zero_resets_path: "current_path (go_up 0 self) = []"
  by (simp add: go_up_def slice_to_def)

text \<open>
  Claim C8, as the code has it. \<^verbatim>\<open>go_down\<close> appends its arguments unchecked, so the path
  stays free of empty segments exactly as far as the caller passes none: from a path with
  no empty segment, every sequence of \<^verbatim>\<open>go_down\<close> calls with non-empty segments and of
  \<^verbatim>\<open>go_up\<close> calls with any \<open>levels\<close> ends in a path with no empty segment.
\<close>

theorem path_invariant_of_nonempty_arguments:
  assumes "list_all nonempty_args ops"
    and "no_empty_segment (current_path self)"
  shows "no_empty_segment (current_path (navigate_all ops self))"
  using assms unfolding navigate_all_def
proof (induction ops arbitrary: self)
  case Nil
  then show ?case by simp
next
  case (Cons op ops)
  from Cons.prems have "no_empty_segment (current_path (nav_step op self))"
    by (simp add: nav_step_keeps_invariant)
  with Cons show ?case by simp
qed

theorem path_invariant_witness:
  "list_all nonempty_args [Down [''Population'', ''Marriages''], Up 1, Up 0, Up (- 3)]
   \<and> no_empty_segment (current_path (init ''sq''))
   \<and> no_empty_segment (current_path
        (navigate_all [Down [''Population'', ''Marriages''], Up 1, Up 0, Up (- 3)] (init ''sq'')))"
  using path_invariant_of_nonempty_arguments
    [of "[Down [''Population'', ''Marriages''], Up 1, Up 0, Up (- 3)]" "init ''sq''"]
  by (simp add: no_empty_segment_def init_def)

text \<open>The claim as stated fails: from root, \<^verbatim>\<open>go_down('')\<close> puts an empty segment on
  the path.\<close>

theorem go_down_empty_segment_counterexample:
  "no_empty_segment (current_path (init ''sq''))
   \<and> \<not> no_empty_segment (current_path (go_down [''''] (init ''sq'')))"
  by (simp add: no_empty_segment_def init_def go_down_def)

subsection \<open>The registry\<close>

lemma lowered_names_distinct: "distinct (map fst municipality_reverse_map)"
  by (simp add: municipality_reverse_map_def municipality_map_def lower_def lower_char_def
      char_of_eq_iff)

lemma registry_codes_distinct: "distinct (map fst municipality_map)"
  by (simp add: municipality_map_def)

lemma dict_get_distinct:
  "distinct (map fst items) \<Longrightarrow> (k, v) \<in> set items \<Longrightarrow> dict_get items k = Some v"
  by (simp add: dict_get_def rev_map [symmetric])

lemma dict_get_member: "dict_get items k = Some v \<Longrightarrow> (k, v) \<in> set items"
  unfolding dict_get_def by (drule map_of_SomeD) simp

lemma registry_codes_nonempty: "(c, n) \<in> set municipality_map \<Longrightarrow> c \<noteq> []"
  by (auto simp: municipality_map_def)

lemma get_municipality_code_nonempty:
  "get_municipality_code m = Some c \<Longrightarrow> c \<noteq> []"
proof -
  assume "get_municipality_code m = Some c"
  then have "(lower m, c) \<in> set municipality_reverse_map"
    unfolding get_municipality_code_def by (rule dict_get_member)
  then obtain n where "(c, n) \<in> set municipality_map"
    by (auto simp: municipality_reverse_map_def)
  then show ?thesis by (rule registry_codes_nonempty)
qed

lemma prishtine: "dict_get municipality_map ''18'' = Some (''Prishtin'' @ [CHR 0xEB])"
  by (rule dict_get_distinct [OF registry_codes_distinct]) (simp add: municipality_map_def)

text \<open>
  Claim C10. For every code of the registry, the name \<^verbatim>\<open>municipality_map\<close> gives for it
  resolves back to that code through \<^verbatim>\<open>get_municipality_code\<close>: the lowered names are
  pairwise distinct, so the reverse map loses none.
\<close>

theorem name_of_code_resolves_to_code:
  assumes "dict_get municipality_map c = Some n"
  shows "get_municipality_code n = Some c"
proof -
  from assms have "(c, n) \<in> set municipality_map"
    by (rule dict_get_member)
  then have "(lower n, c) \<in> set municipality_reverse_map"
    by (force simp: municipality_reverse_map_def)
  with lowered_names_distinct show ?thesis
    unfolding get_municipality_code_def by (rule dict_get_distinct)
qed

theorem name_of_code_resolves_witness:
  "dict_get municipality_map ''18'' = Some (''Prishtin'' @ [CHR 0xEB])
   \<and> get_municipality_code (''Prishtin'' @ [CHR 0xEB]) = Some ''18''"
  using name_of_code_resolves_to_code [OF prishtine] prishtine by simp

subsection \<open>Building the query\<close>

lemma municipality_loop_eq:
  "municipality_loop ms =
     (List.map_filter get_municipality_code ms,
      map warning (filter (\<lambda>m. get_municipality_code m = None) ms))"
proof (induction ms)
  case Nil
  show ?case by simp
next
  case (Cons m ms)
  show ?case
  proof (cases "get_municipality_code m")
    case None
    with Cons show ?thesis by simp
  next
    case (Some c)
    then have "c \<noteq> []" by (rule get_municipality_code_nonempty)
    with Some Cons show ?thesis by simp
  qed
qed

lemma query_append_selection:
  "query (append_selection sel s) = (query s)\<lparr>query_list := query_list (query s) @ [sel]\<rparr>"
  by (simp add: append_selection_def)

lemma query_clear_query: "query (clear_query s) = empty_query"
  by (simp add: clear_query_def)

lemma process_municipalities_query:
  "query s = query s' \<Longrightarrow>
   query (fst (process_municipalities munis s)) = query (fst (process_municipalities munis s'))"
  by (simp add: process_municipalities_def query_append_selection
      split: option.split prod.split)

lemma process_municipalities_printed:
  "snd (process_municipalities munis s) = snd (process_municipalities munis s')"
  by (simp add: process_municipalities_def split: option.split prod.split)

lemma set_query_forgets_state:
  "query (fst (set_query a self)) = query (fst (set_query a self'))"
proof -
  have "query (clear_query self) = query (clear_query self')"
    by (simp add: query_clear_query)
  then have "query (fst (process_municipalities (municipalities a) (clear_query self)))
      = query (fst (process_municipalities (municipalities a) (clear_query self')))"
    by (rule process_municipalities_query)
  then show ?thesis
    by (simp add: set_query_def Let_def case_prod_beta query_append_selection split: sum.split)
qed

text \<open>
  Claim C4. The query left by \<^verbatim>\<open>set_query\<close> depends on the arguments of the call alone:
  on any client, and so on the client an earlier \<^verbatim>\<open>set_query\<close> left, it is the query the
  same call leaves on a freshly constructed client.
\<close>

theorem set_query_replaces_query:
  "query (fst (set_query a self)) = query (fst (set_query a (init lg)))
   \<and> query (fst (set_query a (fst (set_query b self)))) = query (fst (set_query a (init lg)))"
  using set_query_forgets_state [of a self "init lg"]
    set_query_forgets_state [of a "fst (set_query b self)" "init lg"]
  by simp

lemma to_datetime_2023_01: "to_datetime ''2023-01'' = Inr (2023, 1, 1)"
  by (simp add: to_datetime_def mk_timestamp_def is_digit_def num_of_def digit_val_def
      days_in_month_def less_eq_prod_def)

lemma to_datetime_2023_03: "to_datetime ''2023-03'' = Inr (2023, 3, 1)"
  by (simp add: to_datetime_def mk_timestamp_def is_digit_def num_of_def digit_val_def
      days_in_month_def less_eq_prod_def)

lemma upto_24276_24278: "[24276 .. 24278] = [24276, 24277, 24278 :: int]"
  by (simp add: upto_rec1)

lemma date_range_2023_01_03:
  "date_range_M (2023, 1, 1) (2023, 3, 1) = [(2023, 1, 31), (2023, 2, 28)]"
  by (simp add: date_range_M_def month_index_def upto_24276_24278 month_end_def
      days_in_month_def is_leap_def less_eq_prod_def less_prod_def)

lemma str_nat_digit: "n < 10 \<Longrightarrow> str_nat n = [digit_char n]"
  by (simp add: str_nat.simps [of n])

lemma str_nat_more: "10 \<le> n \<Longrightarrow> str_nat n = str_nat (n div 10) @ [digit_char (n mod 10)]"
  by (simp add: str_nat.simps [of n])

lemma str_nat_2023: "str_nat 2023 = ''2023''"
  by (simp add: str_nat_digit str_nat_more digit_char_def char_of_eq_iff)

lemma str_nat_small: "str_nat 1 = ''1''" "str_nat 2 = ''2''"
  by (simp_all add: str_nat_digit digit_char_def char_of_eq_iff)

lemma strftime_jan_feb:
  "strftime_YMm (2023, 1, 31) = ''2023M01''" "strftime_YMm (2023, 2, 28) = ''2023M02''"
  by (simp_all add: strftime_YMm_def str_int_def zfill_def str_nat_digit str_nat_more
      digit_char_def char_of_eq_iff)

lemma range_months_2023_01_03:
  "range_months ''2023-01'' ''2023-03'' = Inr [''2023M01'', ''2023M02'']"
  by (simp add: range_months_def to_datetime_2023_01 to_datetime_2023_03
      date_range_2023_01_03 strftime_jan_feb)

lemma sort_two_tokens:
  "sort (remdups [''2023M01'', ''2023M02'']) = [''2023M01'', ''2023M02'']"
  by (simp add: less_eq_char_def less_char_def)


lemma collect_date_values_municipalities:
  "collect_date_values (a\<lparr>municipalities := m\<rparr>) = collect_date_values a"
  by (simp add: collect_date_values_def)

lemma collect_date_values_no_args: "collect_date_values no_args = Inr []"
  by (simp add: collect_date_values_def no_args_def)

lemma process_municipalities_list:
  "process_municipalities (Some (Lst ms)) s =
     (if List.map_filter get_municipality_code ms \<noteq> []
      then append_selection
             (item_selection ''Komuna'' (List.map_filter get_municipality_code ms)) s
      else s,
      map warning (filter (\<lambda>m. get_municipality_code m = None) ms))"
  by (cases ms) (simp_all add: process_municipalities_def municipality_loop_eq)

lemma process_municipalities_None: "process_municipalities None s = (s, [])"
  by (simp add: process_municipalities_def)

text \<open>
  Claim C5. For a list of names, \<^verbatim>\<open>set_query\<close> prints the line
  \<^verbatim>\<open>Warning: Municipality '<name>' not found\<close> for each name the registry does not
  resolve, in order, and raises nothing for them; the selection with code \<^verbatim>\<open>Komuna\<close> and
  filter \<^verbatim>\<open>item\<close> holds the codes of the names that resolve, in order, and comes first,
  and the rest of the query is what the call builds without names. With no other filter
  the query is that selection alone, or no selection at all when no name resolves.
\<close>

theorem unresolved_names_warned_and_excluded:
  "(let codes = List.map_filter get_municipality_code ms;
        unresolved = filter (\<lambda>m. get_municipality_code m = None) ms;
        komuna = (if codes = [] then []
                  else [\<lparr>code = ''Komuna'', filter_sel = ''item'', values_sel = codes\<rparr>]);
        warnings = map (\<lambda>m. ''Warning: Municipality '' @ [CHR 0x27] @ m @ [CHR 0x27]
                              @ '' not found'') unresolved;
        with_names = set_query (a\<lparr>municipalities := Some (Lst ms)\<rparr>) self;
        without_names = set_query (a\<lparr>municipalities := None\<rparr>) self
    in fst (snd with_names) = warnings
       \<and> snd (snd with_names) = snd (snd without_names)
       \<and> query_list (query (fst with_names))
           = komuna @ query_list (query (fst without_names))
       \<and> set_query (no_args\<lparr>municipalities := Some (Lst ms)\<rparr>) self
           = (self\<lparr>query := \<lparr>query_list = komuna, response_format = ''json''\<rparr>\<rparr>,
              warnings, None))"
  by (simp add: Let_def set_query_def collect_date_values_municipalities
      collect_date_values_no_args process_municipalities_list process_municipalities_None
      append_selection_def clear_query_def empty_query_def item_selection_def warning_def
      split: sum.split)

lemma unknownplace: "get_municipality_code ''unknownplace'' = None"
  by (simp add: get_municipality_code_def dict_get_def municipality_reverse_map_def
      municipality_map_def lower_def lower_char_def char_of_eq_iff)

lemma prizren_code: "get_municipality_code ''Prizren'' = Some ''19''"
  unfolding get_municipality_code_def
  by (rule dict_get_distinct [OF lowered_names_distinct])
    (simp add: municipality_reverse_map_def municipality_map_def lower_def lower_char_def
      char_of_eq_iff)

lemma viti_code: "get_municipality_code ''VITI'' = Some ''25''"
  unfolding get_municipality_code_def
  by (rule dict_get_distinct [OF lowered_names_distinct])
    (simp add: municipality_reverse_map_def municipality_map_def lower_def lower_char_def
      char_of_eq_iff)

theorem unresolved_names_witness:
  "set_query (no_args\<lparr>municipalities := Some (Lst [''unknownplace''])\<rparr>) (init ''sq'')
     = ((init ''sq'')\<lparr>query := \<lparr>query_list = [], response_format = ''json''\<rparr>\<rparr>,
        [''Warning: Municipality '' @ [CHR 0x27] @ ''unknownplace'' @ [CHR 0x27]
           @ '' not found''], None)
   \<and> set_query (no_args\<lparr>municipalities := Some (Lst [''Prizren'', ''unknownplace'', ''VITI''])\<rparr>)
       (init ''sq'')
     = ((init ''sq'')\<lparr>query :=
          \<lparr>query_list =
             [\<lparr>code = ''Komuna'', filter_sel = ''item'', values_sel = [''19'', ''25'']\<rparr>],
           response_format = ''json''\<rparr>\<rparr>,
        [''Warning: Municipality '' @ [CHR 0x27] @ ''unknownplace'' @ [CHR 0x27]
           @ '' not found''], None)"
  using unresolved_names_warned_and_excluded [of "[''unknownplace'']" no_args "init ''sq''"]
    unresolved_names_warned_and_excluded
      [of "[''Prizren'', ''unknownplace'', ''VITI'']" no_args "init ''sq''"]
  by (simp add: Let_def unknownplace prizren_code viti_code)

text \<open>Between two first days of a month the range holds the month ends from the start
  month to the month before the end month: the end month is left out.\<close>

lemma days_in_month_bounds: "28 \<le> days_in_month y m"
  by (simp add: days_in_month_def)

lemma lex_lo:
  fixes q r y1 m1 :: int
  assumes "0 \<le> r" "r < 12" "1 \<le> m1" "m1 \<le> 12" "12 * y1 + (m1 - 1) \<le> 12 * q + r"
  shows "y1 < q \<or> (y1 = q \<and> m1 \<le> r + 1)"
  using assms by arith

lemma lex_hi:
  fixes q r y2 m2 :: int
  assumes "0 \<le> r" "r < 12" "1 \<le> m2" "m2 \<le> 12"
  shows "(q < y2 \<or> (q = y2 \<and> r + 1 < m2)) \<longleftrightarrow> 12 * q + r < 12 * y2 + (m2 - 1)"
  using assms by arith

lemma filter_upto_less: "filter (\<lambda>n. n < j) [i .. j] = [i .. j - 1]" for i j :: int
proof (cases "i \<le> j")
  case True
  then have "[i .. j] = [i .. j - 1] @ [j]"
    by (simp add: upto_rec2)
  then show ?thesis by simp
next
  case False
  then show ?thesis by simp
qed


lemma timestamp_le:
  "((a, b, c) \<le> (a', b', c')) \<longleftrightarrow> a < a' \<or> (a = a' \<and> (b < b' \<or> (b = b' \<and> c \<le> c')))"
  for a b c a' b' c' :: int
  by (auto simp: less_eq_prod_def)

lemma month_end_in_range:
  assumes m: "1 \<le> m1" "m1 \<le> 12" "1 \<le> m2" "m2 \<le> 12"
    and n: "12 * y1 + (m1 - 1) \<le> n"
  shows "((y1, m1, 1) \<le> month_end n \<and> month_end n \<le> (y2, m2, 1))
         \<longleftrightarrow> n < 12 * y2 + (m2 - 1)"
proof -
  define q where "q = n div 12"
  define r where "r = n mod 12"
  have nqr: "n = 12 * q + r" and r: "0 \<le> r" "r < 12"
    by (simp_all add: q_def r_def)
  have d: "28 \<le> days_in_month q (r + 1)"
    by (rule days_in_month_bounds)
  have lo: "y1 < q \<or> (y1 = q \<and> m1 \<le> r + 1)"
    using r m(1,2) n unfolding nqr by (rule lex_lo)
  have hi: "(q < y2 \<or> (q = y2 \<and> r + 1 < m2)) \<longleftrightarrow> n < 12 * y2 + (m2 - 1)"
    unfolding nqr using r m(3,4) by (rule lex_hi)
  have me: "month_end n = (q, r + 1, days_in_month q (r + 1))"
    by (simp add: month_end_def Let_def q_def r_def)
  have 1: "(y1, m1, 1) \<le> month_end n"
    unfolding me timestamp_le using lo d by linarith
  have 2: "month_end n \<le> (y2, m2, 1) \<longleftrightarrow> (q < y2 \<or> (q = y2 \<and> r + 1 < m2))"
    unfolding me timestamp_le using d by linarith
  from 1 2 hi show ?thesis by simp
qed

lemma date_range_M_first_days:
  assumes "1 \<le> m1" "m1 \<le> 12" "1 \<le> m2" "m2 \<le> 12"
  shows "date_range_M (y1, m1, 1) (y2, m2, 1)
         = map month_end [12 * y1 + (m1 - 1) .. 12 * y2 + (m2 - 1) - 1]"
proof -
  have "filter (\<lambda>d. (y1, m1, 1) \<le> d \<and> d \<le> (y2, m2, 1))
          (map month_end [12 * y1 + (m1 - 1) .. 12 * y2 + (m2 - 1)])
      = map month_end (filter (\<lambda>n. n < 12 * y2 + (m2 - 1))
          [12 * y1 + (m1 - 1) .. 12 * y2 + (m2 - 1)])"
    unfolding filter_map o_def
    by (rule arg_cong [where f = "map month_end"], rule filter_cong [OF refl])
      (simp add: month_end_in_range [OF assms])
  then show ?thesis
    by (simp add: date_range_M_def month_index_def filter_upto_less)
qed

text \<open>
  Claim C1. A date range is to hold one token for every month from the start month to
  the end month, both included. The range is built with frequency \<^verbatim>\<open>'M'\<close>, the month
  ends between the two dates, so a month counts only when its last day is not after the
  end date (\<open>date_range_M_first_days\<close>): for \<^verbatim>\<open>2023-01\<close> to \<^verbatim>\<open>2023-03\<close> the query holds
  the tokens of January and February and not the token of March.
\<close>

theorem set_query_2023_01_to_2023_03:
  "set_query (no_args\<lparr>start_date := Some ''2023-01'', end_date := Some ''2023-03''\<rparr>) (init ''sq'')
     = ((init ''sq'')\<lparr>query :=
          \<lparr>query_list =
             [\<lparr>code = ''Viti-muaji'', filter_sel = ''item'',
               values_sel = [''2023M01'', ''2023M02'']\<rparr>],
           response_format = ''json''\<rparr>\<rparr>, [], None)"
  by (simp add: set_query_def no_args_def collect_date_values_def range_months_2023_01_03
      process_municipalities_None sort_two_tokens append_selection_def clear_query_def
      empty_query_def init_def item_selection_def)

subsection \<open>Normalising a response\<close>

lemma process_items_Inr:
  "process_items items = Inr rows \<longleftrightarrow>
     (\<forall>it\<in>set items. \<not> isl (process_item it))
     \<and> rows = map (\<lambda>it. projr (process_item it)) items"
proof (induction items arbitrary: rows)
  case Nil
  show ?case by auto
next
  case (Cons it items)
  show ?case
  proof (cases "process_item it")
    case (Inl e)
    then show ?thesis by auto
  next
    case (Inr r)
    note r = this
    show ?thesis
    proof (cases "process_items items")
      case (Inl e)
      with r Cons.IH show ?thesis by auto
    next
      case (Inr rs)
      with r Cons.IH [of rs] show ?thesis by auto
    qed
  qed
qed

lemma process_items_fails:
  "it \<in> set items \<Longrightarrow> isl (process_item it) \<Longrightarrow> isl (process_items items)"
  by (induction items) (auto split: sum.splits)

lemma process_item_bad_value:
  "values_item it = v # vs \<Longrightarrow> v \<noteq> '':'' \<Longrightarrow> py_int v = None \<Longrightarrow> isl (process_item it)"
  by (simp add: process_item_def subscript_def split: sum.split)

text \<open>The row of the list \<^verbatim>\<open>rows\<close> for an entry with a period, a code and a value:
  the value \<^verbatim>\<open>":"\<close> gives \<open>None\<close>, any other value the integer \<^verbatim>\<open>int\<close> reads, and a
  value \<^verbatim>\<open>int\<close> cannot read raises.\<close>

lemma process_item_row:
  "key it = d # c # ks \<Longrightarrow> values_item it = v # vs \<Longrightarrow>
   process_item it =
     (if v = '':'' then
        Inr \<lparr>Date = d, Municipality_Code = c, Municipality = municipality_name c,
             Marriages = None\<rparr>
      else (case py_int v of
              None \<Rightarrow> Inl ValueError
            | Some n \<Rightarrow>
                Inr \<lparr>Date = d, Municipality_Code = c, Municipality = municipality_name c,
                     Marriages = Some n\<rparr>))"
  by (simp add: process_item_def subscript_def split: option.split)

text \<open>One entry whose value is neither \<^verbatim>\<open>":"\<close> nor an integer makes the whole call
  raise.\<close>

lemma bad_value_fails_the_call:
  assumes "data resp = Some items" and "it \<in> set items" and "values_item it = v # vs"
    and "v \<noteq> '':''" and "py_int v = None"
  shows "\<exists>e. get_data_as_df clock (Some resp) = Inl e"
proof -
  from assms have "isl (process_item it)"
    by (simp add: process_item_bad_value)
  with assms have "isl (process_items items)"
    using process_items_fails [of it items] by blast
  then obtain e where "process_items items = Inl e"
    by (cases "process_items items") auto
  with assms show ?thesis
    by (simp add: get_data_as_df_def)
qed

lemma bit_length_between: "2 ^ b \<le> n \<Longrightarrow> n < 2 ^ Suc b \<Longrightarrow> bit_length n = Suc b"
proof (induction b arbitrary: n)
  case 0
  then have "n = 1" by simp
  then show ?case by (simp add: bit_length.simps [of "Suc 0"] bit_length.simps [of 0])
next
  case (Suc b)
  from Suc.prems have "2 ^ b \<le> n div 2" and "n div 2 < 2 ^ Suc b" and "n \<noteq> 0"
    by auto
  with Suc.IH [of "n div 2"] show ?case
    by (simp add: bit_length.simps [of n])
qed

lemma bit_length_2_53_1: "bit_length 9007199254740993 = 54"
  using bit_length_between [of 53 9007199254740993] by simp

lemma float_2_53_1: "to_float64 9007199254740993 = Inr 9007199254740992"
  by (simp add: to_float64_def float_value_def round_to_53_def bit_length_2_53_1)

lemma py_int_2_53_1: "py_int ''9007199254740993'' = Some 9007199254740993"
  by (simp add: py_int_def strip_def is_space_def unsigned_value_def is_digit_def digit_val_def)

lemma prizren: "dict_get municipality_map ''19'' = Some ''Prizren''"
  by (rule dict_get_distinct [OF registry_codes_distinct]) (simp add: municipality_map_def)

lemma names_18_19:
  "municipality_name ''18'' = ''Prishtin'' @ [CHR 0xEB]"
  "municipality_name ''19'' = ''Prizren''"
  by (simp_all add: municipality_name_def prishtine prizren)

lemma strptime_2023M01: "strptime_Ym now (replace_M ''2023M01'') = Inr (Some ((2023, 1, 1), 0))"
  by (simp add: strptime_Ym_def replace_M_def nat_strings_def mk_timestamp_def is_digit_def
      num_of_def digit_val_def days_in_month_def less_eq_prod_def)

lemma prishtine_before_prizren: "''Prishtin'' @ [CHR 0xEB] \<le> ''Prizren''"
  by (simp add: less_eq_char_def less_char_def)

lemma prizren_after_prishtine: "\<not> ''Prizren'' \<le> ''Prishtin'' @ [CHR 0xEB]"
  by (simp add: less_eq_char_def less_char_def)

lemma column_2_53_1: "convert_column [Some 9007199254740993, None] = Inr Float64"
  by (simp add: convert_column_def nothing_seen_def float_2_53_1 INT64_MAX_def INT64_MIN_def
      UINT64_MAX_def)

text \<open>
  Claim C2, as the code has it. For a response object without the key \<^verbatim>\<open>'data'\<close>,
  \<^verbatim>\<open>get_data_as_df\<close> raises \<^verbatim>\<open>KeyError('data')\<close> when the object has some other key, and
  returns \<open>None\<close>, as after a failed request, when the object is empty; no frame comes back
  in either case.
\<close>

theorem missing_data_key:
  "data resp = None \<Longrightarrow>
   get_data_as_df clock (Some resp) =
     (if other_keys resp = [] then Inr None else Inl (KeyError ''data''))"
  by (simp add: get_data_as_df_def)

theorem missing_data_key_witness:
  "data \<lparr>data = None, other_keys = [''columns'']\<rparr> = None
   \<and> get_data_as_df (\<lambda>i. ((2026, 1, 1), 0)) (Some \<lparr>data = None, other_keys = [''columns'']\<rparr>)
       = Inl (KeyError ''data'')"
  using missing_data_key [of "\<lparr>data = None, other_keys = [''columns'']\<rparr>" "\<lambda>i. ((2026, 1, 1), 0)"]
  by simp

text \<open>The claim as stated fails on the empty response object: the call raises nothing
  and returns \<open>None\<close>.\<close>

theorem empty_response_counterexample:
  "data \<lparr>data = None, other_keys = []\<rparr> = None
   \<and> get_data_as_df (\<lambda>i. ((2026, 1, 1), 0)) (Some \<lparr>data = None, other_keys = []\<rparr>) = Inr None"
  by (simp add: get_data_as_df_def)

text \<open>
  Claim C3. A value \<^verbatim>\<open>":"\<close> is to give a record with no metric value and any other value
  the integer read from it, as the docstring has it (\<^verbatim>\<open>Marriages: int or None\<close>). The loop
  does so (\<open>process_item_row\<close>), and a value that is no integer makes the whole call raise
  (\<open>bad_value_fails_the_call\<close>). But the frame is built from the rows afterwards, and a
  column with a \<open>None\<close> in it becomes one of floats: beside an entry with the value
  \<^verbatim>\<open>":"\<close>, the value \<^verbatim>\<open>"9007199254740993"\<close> comes back as the float 9007199254740992.0,
  which is not the integer read from it, and the missing value as \<open>NaN\<close>.
\<close>

theorem marriages_column_becomes_float:
  "py_int ''9007199254740993'' = Some 9007199254740993
   \<and> get_data_as_df (\<lambda>i. ((2026, 1, 1), 0)) (Some \<lparr>data = Some
        [\<lparr>key = [''2023M01'', ''18''], values_item = [''9007199254740993'']\<rparr>,
         \<lparr>key = [''2023M01'', ''19''], values_item = ['':'']\<rparr>], other_keys = []\<rparr>)
     = Inr (Some
        [(0, \<lparr>Date = Some ((2023, 1, 1), 0), Municipality_Code = ''18'',
               Municipality = ''Prishtin'' @ [CHR 0xEB],
               Marriages = FloatCell 9007199254740992\<rparr>),
         (1, \<lparr>Date = Some ((2023, 1, 1), 0), Municipality_Code = ''19'',
               Municipality = ''Prizren'', Marriages = NaN\<rparr>)])"
  by (simp add: get_data_as_df_def process_item_def subscript_def py_int_2_53_1 names_18_19
      DataFrame_def column_2_53_1 with_marriages_def float_value_def round_to_53_def
      bit_length_2_53_1 strptime_2023M01 with_date_def sort_values_def sort_key_of_def
      less_eq_prod_def less_prod_def prishtine_before_prizren prizren_after_prishtine)

lemma DataFrame_labels: "DataFrame rows = Inr fr \<Longrightarrow> map fst fr = [0..<length rows]"
  by (auto simp: DataFrame_def split: sum.splits)

lemma convert_dates_Inr:
  "convert_dates clock fr = Inr fr' \<longleftrightarrow>
     (\<forall>p\<in>set fr. \<not> isl (strptime_Ym (clock (fst p)) (replace_M (Date (snd p)))))
     \<and> fr' = map (\<lambda>p. (fst p,
          with_date (projr (strptime_Ym (clock (fst p)) (replace_M (Date (snd p))))) (snd p))) fr"
proof (induction fr arbitrary: fr')
  case Nil
  show ?case by auto
next
  case (Cons p fr)
  obtain i r where p: "p = (i, r)" by (cases p)
  show ?case
  proof (cases "strptime_Ym (clock i) (replace_M (Date r))")
    case (Inl e)
    with p show ?thesis by auto
  next
    case (Inr t)
    note t = this
    show ?thesis
    proof (cases "convert_dates clock fr")
      case (Inl e)
      with t p Cons.IH show ?thesis by auto
    next
      case (Inr ts)
      with t p Cons.IH [of ts] show ?thesis by auto
    qed
  qed
qed

lemma convert_dates_labels: "convert_dates clock fr = Inr fr' \<Longrightarrow> map fst fr' = map fst fr"
  by (simp add: convert_dates_Inr o_def)

text \<open>A stable sort of rows whose labels ascend sorts by key first and label second.\<close>

lemma insort_key_by_label:
  fixes k :: "'a \<Rightarrow> 'b::linorder" and l :: "'a \<Rightarrow> nat"
  assumes "sorted (map (\<lambda>y. (k y, l y)) ys)" and "\<forall>y\<in>set ys. l x < l y"
  shows "sorted (map (\<lambda>y. (k y, l y)) (insort_key k x ys))"
  using assms
proof (induction ys)
  case Nil
  then show ?case by simp
next
  case (Cons y ys)
  show ?case
  proof (cases "k x \<le> k y")
    case True
    with Cons.prems have xy: "(k x, l x) \<le> (k y, l y)"
      by (auto simp: less_eq_prod_def)
    from Cons.prems have "\<forall>z\<in>set ys. (k y, l y) \<le> (k z, l z)"
      by simp
    with xy have "\<forall>z\<in>set ys. (k x, l x) \<le> (k z, l z)"
      by (meson order_trans)
    with True xy Cons.prems show ?thesis by simp
  next
    case False
    then have yx: "(k y, l y) \<le> (k x, l x)"
      by (auto simp: less_eq_prod_def)
    from Cons.prems have tail: "sorted (map (\<lambda>y. (k y, l y)) ys)" "\<forall>z\<in>set ys. l x < l z"
      and le: "\<forall>z\<in>set ys. (k y, l y) \<le> (k z, l z)"
      by simp_all
    from tail have "sorted (map (\<lambda>y. (k y, l y)) (insort_key k x ys))"
      by (rule Cons.IH)
    with False yx le show ?thesis
      by (auto simp: set_insort_key)
  qed
qed

lemma sort_key_by_label:
  fixes k :: "'a \<Rightarrow> 'b::linorder" and l :: "'a \<Rightarrow> nat"
  assumes "sorted_wrt (<) (map l xs)"
  shows "sorted (map (\<lambda>y. (k y, l y)) (sort_key k xs))"
  using assms
proof (induction xs)
  case Nil
  show ?case by simp
next
  case (Cons x xs)
  then have "sorted (map (\<lambda>y. (k y, l y)) (sort_key k xs))"
    and "\<forall>y\<in>set (sort_key k xs). l x < l y"
    by simp_all
  then show ?case
    by (simp add: insort_key_by_label)
qed

lemma frame_returned:
  assumes "get_data_as_df clock (Some resp) = Inr (Some df)"
  obtains items fr fr' where "data resp = Some items" and "items \<noteq> []"
    and "process_items items = Inr (map (\<lambda>it. projr (process_item it)) items)"
    and "\<forall>it\<in>set items. \<not> isl (process_item it)"
    and "DataFrame (map (\<lambda>it. projr (process_item it)) items) = Inr fr"
    and "convert_dates clock fr = Inr fr'" and "df = sort_values fr'"
proof -
  from assms obtain items where items: "data resp = Some items"
    by (cases "data resp") (auto simp: get_data_as_df_def split: if_splits)
  from assms items obtain rows where rows: "process_items items = Inr rows"
    by (cases "process_items items") (auto simp: get_data_as_df_def)
  from assms items rows have ne: "rows \<noteq> []"
    by (auto simp: get_data_as_df_def)
  from assms items rows ne obtain fr where fr: "DataFrame rows = Inr fr"
    by (cases "DataFrame rows") (auto simp: get_data_as_df_def)
  from assms items rows ne fr obtain fr' where fr': "convert_dates clock fr = Inr fr'"
    by (cases "convert_dates clock fr") (auto simp: get_data_as_df_def)
  from assms items rows ne fr fr' have df: "df = sort_values fr'"
    by (auto simp: get_data_as_df_def)
  from rows have ok: "\<forall>it\<in>set items. \<not> isl (process_item it)"
    and r: "rows = map (\<lambda>it. projr (process_item it)) items"
    by (simp_all add: process_items_Inr)
  from ne r have "items \<noteq> []" by auto
  with items rows ok fr fr' df r that show ?thesis by blast
qed

lemma frame_sorted_by_key_and_label:
  assumes "get_data_as_df clock response = Inr (Some df)"
  shows "sorted (map (\<lambda>p. (sort_key_of (snd p), fst p)) df)"
proof -
  from assms obtain resp where "response = Some resp"
    by (cases response) (auto simp: get_data_as_df_def)
  with assms have "get_data_as_df clock (Some resp) = Inr (Some df)" by simp
  then obtain items fr fr' where
    fr: "DataFrame (map (\<lambda>it. projr (process_item it)) items) = Inr fr"
    and fr': "convert_dates clock fr = Inr fr'" and df: "df = sort_values fr'"
    by (rule frame_returned)
  from fr fr' have "map fst fr' = [0..<length items]"
    by (simp add: convert_dates_labels DataFrame_labels)
  then have "sorted_wrt (<) (map fst fr')" by simp
  then show ?thesis
    unfolding df sort_values_def by (rule sort_key_by_label)
qed

lemma reads_clock_replace_M: "reads_clock (replace_M s) \<Longrightarrow> reads_clock s"
  by (auto simp: reads_clock_def replace_M_def map_eq_Cons_conv split: if_splits)

lemma strptime_clock_free:
  "\<not> reads_clock s \<Longrightarrow> strptime_Ym now (replace_M s) = strptime_Ym now' (replace_M s)"
  using reads_clock_replace_M [of s] by (auto simp: strptime_Ym_def)

lemma convert_dates_clock_free:
  "\<forall>p\<in>set fr. \<not> reads_clock (Date (snd p)) \<Longrightarrow> convert_dates clock fr = convert_dates clock' fr"
proof (induction fr)
  case Nil
  show ?case by simp
next
  case (Cons p fr)
  obtain i r where p: "p = (i, r)" by (cases p)
  with Cons.prems have "\<not> reads_clock (Date r)" by simp
  then have "strptime_Ym (clock i) (replace_M (Date r)) = strptime_Ym (clock' i) (replace_M (Date r))"
    by (rule strptime_clock_free)
  moreover from Cons have "convert_dates clock fr = convert_dates clock' fr" by simp
  ultimately show ?case by (simp add: p split: sum.split)
qed

lemma process_item_clock_free:
  "\<not> isl (process_item it) \<Longrightarrow> clock_free it \<Longrightarrow> \<not> reads_clock (Date (projr (process_item it)))"
  by (auto simp: process_item_def subscript_def clock_free_def hd_conv_nth
      split: sum.splits option.splits if_splits list.splits)

lemma DataFrame_rows:
  "DataFrame rows = Inr fr \<Longrightarrow>
   \<exists>kind. convert_column (map Marriages rows) = Inr kind
     \<and> map snd fr = map (\<lambda>r. with_marriages (cell_of kind (Marriages r)) r) rows"
  by (auto simp: DataFrame_def split: sum.splits)

lemma DataFrame_dates:
  assumes "DataFrame rows = Inr fr"
  shows "map (\<lambda>p. Date (snd p)) fr = map Date rows"
proof -
  from assms obtain kind where
    "map snd fr = map (\<lambda>r. with_marriages (cell_of kind (Marriages r)) r) rows"
    using DataFrame_rows by blast
  then have "map Date (map snd fr) = map Date rows"
    by (simp add: with_marriages_def o_def)
  then show ?thesis by (simp add: o_def)
qed

lemma clock_free_result:
  assumes "\<forall>items. data resp = Some items \<longrightarrow> list_all clock_free items"
  shows "get_data_as_df clock (Some resp) = get_data_as_df clock' (Some resp)"
proof (cases "data resp")
  case None
  then show ?thesis by (simp add: get_data_as_df_def)
next
  case (Some items)
  with assms have cf: "\<forall>it\<in>set items. clock_free it"
    by (simp add: list_all_iff)
  show ?thesis
  proof (cases "process_items items")
    case (Inl e)
    with Some show ?thesis by (simp add: get_data_as_df_def)
  next
    case (Inr rows)
    then have ok: "\<forall>it\<in>set items. \<not> isl (process_item it)"
      and rows: "rows = map (\<lambda>it. projr (process_item it)) items"
      by (simp_all add: process_items_Inr)
    show ?thesis
    proof (cases "DataFrame rows")
      case (Inl e)
      with Some Inr show ?thesis by (simp add: get_data_as_df_def)
    next
      case (Inr fr)
      then have "map (\<lambda>p. Date (snd p)) fr = map Date rows"
        by (rule DataFrame_dates)
      then have "set (map (\<lambda>p. Date (snd p)) fr) = set (map Date rows)" by simp
      then have d: "(\<lambda>p. Date (snd p)) ` set fr
          = (\<lambda>it. Date (projr (process_item it))) ` set items"
        by (simp add: rows image_image)
      have "\<not> reads_clock (Date (snd p))" if "p \<in> set fr" for p
      proof -
        from that d obtain it where "it \<in> set items"
          and "Date (snd p) = Date (projr (process_item it))"
          by (metis (no_types, lifting) image_iff)
        with ok cf show ?thesis
          by (simp add: process_item_clock_free)
      qed
      then have "\<forall>p\<in>set fr. \<not> reads_clock (Date (snd p))" by blast
      then have "convert_dates clock fr = convert_dates clock' fr"
        by (rule convert_dates_clock_free)
      with Some \<open>process_items items = Inr rows\<close> Inr show ?thesis
        by (simp add: get_data_as_df_def)
    qed
  qed
qed

lemma bit_length_le: "n < 2 ^ b \<Longrightarrow> bit_length n \<le> b"
proof (induction b arbitrary: n)
  case 0
  then show ?case by (simp add: bit_length.simps [of 0])
next
  case (Suc b)
  then have "n div 2 < 2 ^ b" by auto
  then have "bit_length (n div 2) \<le> b" by (rule Suc.IH)
  then show ?case by (simp add: bit_length.simps [of n])
qed

lemma round_to_53_bound:
  assumes "a \<le> 2 ^ 63"
  shows "round_to_53 a < 2 ^ 1024"
proof -
  define k where "k = bit_length a - 53"
  from assms have "a < 2 ^ 64" by simp
  then have "bit_length a \<le> 64" by (rule bit_length_le)
  then have k: "k \<le> 11" by (simp add: k_def)
  then have p: "(2::nat) ^ k \<le> 2 ^ 11"
    by (intro power_increasing) simp_all
  have "a div 2 ^ k \<le> a" by (rule div_le_dividend)
  from this assms have "a div 2 ^ k \<le> 2 ^ 63" by (rule order_trans)
  then have "a div 2 ^ k + 1 \<le> 2 ^ 63 + 1" by (rule add_le_mono1)
  from this p have "(a div 2 ^ k + 1) * 2 ^ k \<le> (2 ^ 63 + 1) * 2 ^ 11"
    by (rule mult_le_mono)
  moreover have "a div 2 ^ k * 2 ^ k \<le> (a div 2 ^ k + 1) * 2 ^ k" by simp
  moreover have "a \<le> (2 ^ 63 + 1) * 2 ^ 11" using assms by simp
  ultimately have "round_to_53 a \<le> (2 ^ 63 + 1) * 2 ^ 11"
    unfolding round_to_53_def k_def [symmetric] Let_def by auto
  also have "\<dots> < (2::nat) ^ 1024" by simp
  finally show ?thesis .
qed

lemma to_float64_in_range:
  assumes "INT64_MIN \<le> v" and "v \<le> INT64_MAX"
  shows "to_float64 v = Inr (float_value v)"
proof -
  from assms have "nat \<bar>v\<bar> \<le> 2 ^ 63"
    by (simp add: INT64_MIN_def INT64_MAX_def nat_le_iff)
  then have "round_to_53 (nat \<bar>v\<bar>) < 2 ^ 1024" by (rule round_to_53_bound)
  then show ?thesis by (simp add: to_float64_def)
qed

lemma scan_in_range:
  assumes "\<forall>v. Some v \<in> set vs \<longrightarrow> INT64_MIN \<le> v \<and> v \<le> INT64_MAX" and "\<not> seen_uint s"
  shows "\<exists>s'. scan_objects vs s = Inr (Some s')
           \<and> seen_null s' = (seen_null s \<or> None \<in> set vs)
           \<and> seen_int s' = (seen_int s \<or> (\<exists>v. Some v \<in> set vs))
           \<and> \<not> seen_uint s'"
  using assms
proof (induction vs arbitrary: s)
  case Nil
  then show ?case by simp
next
  case (Cons x vs)
  show ?case
  proof (cases x)
    case None
    from Cons.prems have "\<exists>s'. scan_objects vs (s\<lparr>seen_null := True\<rparr>) = Inr (Some s')
           \<and> seen_null s' = (seen_null (s\<lparr>seen_null := True\<rparr>) \<or> None \<in> set vs)
           \<and> seen_int s' = (seen_int (s\<lparr>seen_null := True\<rparr>) \<or> (\<exists>v. Some v \<in> set vs))
           \<and> \<not> seen_uint s'"
      by (intro Cons.IH) simp_all
    with None show ?thesis by auto
  next
    case (Some v)
    with Cons.prems have r: "INT64_MIN \<le> v" "v \<le> INT64_MAX" by simp_all
    then have f: "to_float64 v = Inr (float_value v)" by (rule to_float64_in_range)
    from r have u: "\<not> (INT64_MAX < v \<and> v \<le> UINT64_MAX)" "\<not> UINT64_MAX < v" "\<not> v < INT64_MIN"
      by (simp_all add: UINT64_MAX_def INT64_MAX_def)
    define s1 where "s1 = (if seen_null s then s\<lparr>seen_int := True\<rparr>
      else s\<lparr>seen_int := True,
             seen_uint := seen_uint s \<or> (INT64_MAX < v \<and> v \<le> UINT64_MAX),
             seen_sint := seen_sint s \<or> (INT64_MIN \<le> v \<and> v < 0)\<rparr>)"
    from Cons.prems u have s1: "\<not> seen_uint s1" "seen_null s1 = seen_null s" "seen_int s1"
      by (simp_all add: s1_def)
    from f u Cons.prems have step: "scan_objects (Some v # vs) s = scan_objects vs s1"
      by (simp add: s1_def Let_def)
    from Cons.prems s1 have "\<exists>s'. scan_objects vs s1 = Inr (Some s')
           \<and> seen_null s' = (seen_null s1 \<or> None \<in> set vs)
           \<and> seen_int s' = (seen_int s1 \<or> (\<exists>v. Some v \<in> set vs))
           \<and> \<not> seen_uint s'"
      by (intro Cons.IH) simp_all
    with step s1 Some show ?thesis by auto
  qed
qed

lemma convert_column_in_range:
  assumes "\<forall>v. Some v \<in> set vs \<longrightarrow> INT64_MIN \<le> v \<and> v \<le> INT64_MAX"
  shows "convert_column vs
         = Inr (if None \<in> set vs \<and> (\<exists>v. Some v \<in> set vs) then Float64 else Exact)"
proof -
  from assms obtain s' where "scan_objects vs nothing_seen = Inr (Some s')"
    and "seen_null s' = (seen_null nothing_seen \<or> None \<in> set vs)"
    and "seen_int s' = (seen_int nothing_seen \<or> (\<exists>v. Some v \<in> set vs))"
    using scan_in_range [of vs nothing_seen] by (auto simp: nothing_seen_def)
  then show ?thesis
    by (simp add: convert_column_def nothing_seen_def)
qed

lemma in_int64_metric:
  "\<not> isl (process_item it) \<Longrightarrow> in_int64 it \<Longrightarrow> Marriages (item_row it) = Some n \<Longrightarrow>
   INT64_MIN \<le> n \<and> n \<le> INT64_MAX"
  by (auto simp: item_row_def process_item_def subscript_def in_int64_def hd_conv_nth
      split: sum.splits option.splits if_splits list.splits)

lemma item_row_clock_free:
  "\<not> isl (process_item it) \<Longrightarrow> clock_free it \<Longrightarrow> \<not> reads_clock (Date (item_row it))"
  by (simp add: item_row_def process_item_clock_free)

lemma DataFrame_plain:
  assumes ok: "\<forall>it\<in>set items. \<not> isl (process_item it)"
    and r: "list_all in_int64 items"
  shows "DataFrame (map item_row items)
         = Inr (enumerate 0 (map (\<lambda>it. with_marriages
                  (cell_of (plain_kind items) (Marriages (item_row it))) (item_row it)) items))"
proof -
  have "\<forall>v. Some v \<in> set (map Marriages (map item_row items))
          \<longrightarrow> INT64_MIN \<le> v \<and> v \<le> INT64_MAX"
  proof (intro allI impI)
    fix v
    assume "Some v \<in> set (map Marriages (map item_row items))"
    then obtain it where "it \<in> set items" and "Marriages (item_row it) = Some v"
      by auto
    with ok r show "INT64_MIN \<le> v \<and> v \<le> INT64_MAX"
      by (intro in_int64_metric [of it]) (simp_all add: list_all_iff)
  qed
  then have "convert_column (map Marriages (map item_row items))
      = Inr (if None \<in> set (map Marriages (map item_row items))
                \<and> (\<exists>v. Some v \<in> set (map Marriages (map item_row items)))
             then Float64 else Exact)"
    by (rule convert_column_in_range)
  also have "(if None \<in> set (map Marriages (map item_row items))
                \<and> (\<exists>v. Some v \<in> set (map Marriages (map item_row items)))
             then Float64 else Exact) = plain_kind items"
  proof -
    have "None \<in> set (map Marriages (map item_row items))
        \<longleftrightarrow> (\<exists>it\<in>set items. Marriages (item_row it) = None)"
      by (simp add: image_iff) metis
    moreover have "(\<exists>v. Some v \<in> set (map Marriages (map item_row items)))
        \<longleftrightarrow> (\<exists>it\<in>set items. Marriages (item_row it) \<noteq> None)"
      by (simp add: image_iff) metis
    ultimately show ?thesis
      by (simp only: plain_kind_def)
  qed
  finally show ?thesis
    by (simp add: DataFrame_def o_def)
qed

lemma convert_dates_enumerate:
  assumes "\<forall>r\<in>set xs. \<not> reads_clock (Date r)"
    and "\<forall>r\<in>set xs. \<not> isl (strptime_Ym c0 (replace_M (Date r)))"
  shows "convert_dates clock (enumerate n xs)
         = Inr (enumerate n
             (map (\<lambda>r. with_date (projr (strptime_Ym c0 (replace_M (Date r)))) r) xs))"
  using assms
proof (induction xs arbitrary: n)
  case Nil
  show ?case by simp
next
  case (Cons r xs)
  then have "strptime_Ym (clock n) (replace_M (Date r)) = strptime_Ym c0 (replace_M (Date r))"
    by (simp add: strptime_clock_free)
  moreover from Cons.prems have "\<not> isl (strptime_Ym c0 (replace_M (Date r)))" by simp
  ultimately obtain t where t: "strptime_Ym (clock n) (replace_M (Date r)) = Inr t"
    "strptime_Ym c0 (replace_M (Date r)) = Inr t"
    by (cases "strptime_Ym c0 (replace_M (Date r))") auto
  from Cons have "convert_dates clock (enumerate (Suc n) xs)
         = Inr (enumerate (Suc n)
             (map (\<lambda>r. with_date (projr (strptime_Ym c0 (replace_M (Date r)))) r) xs))"
    by simp
  with t show ?case by simp
qed

lemma insort_key_snd:
  "map snd (insort_key (\<lambda>p. k (snd p)) p ps) = insort_key k (snd p) (map snd ps)"
  by (induction ps) simp_all

lemma sort_key_snd: "map snd (sort_key (\<lambda>p. k (snd p)) ps) = sort_key k (map snd ps)"
  by (induction ps) (simp_all add: insort_key_snd)

lemma enumerate_map: "enumerate n (map f xs) = map (\<lambda>p. (fst p, f (snd p))) (enumerate n xs)"
  by (induction xs arbitrary: n) simp_all

text \<open>A frame that comes back holds, for each entry, the row of that entry under the
  label of its position.\<close>

lemma frame_rows_of_entries:
  assumes "get_data_as_df clock (Some resp) = Inr (Some df)"
  shows "\<exists>items kind. data resp = Some items
           \<and> mset df = mset (map (\<lambda>p. (fst p, frame_row kind (clock (fst p)) (snd p)))
                              (enumerate 0 items))"
proof -
  from assms obtain items fr fr' where items: "data resp = Some items"
    and fr: "DataFrame (map (\<lambda>it. projr (process_item it)) items) = Inr fr"
    and fr': "convert_dates clock fr = Inr fr'" and df: "df = sort_values fr'"
    by (rule frame_returned)
  from fr obtain kind where
    "fr = enumerate 0 (map (\<lambda>r. with_marriages (cell_of kind (Marriages r)) r)
            (map (\<lambda>it. projr (process_item it)) items))"
    by (auto simp: DataFrame_def split: sum.splits)
  then have "fr = map (\<lambda>p. (fst p, with_marriages
        (cell_of kind (Marriages (item_row (snd p)))) (item_row (snd p)))) (enumerate 0 items)"
    by (simp add: enumerate_map o_def item_row_def)
  moreover from fr' have "fr' = map (\<lambda>p. (fst p,
      with_date (projr (strptime_Ym (clock (fst p)) (replace_M (Date (snd p))))) (snd p))) fr"
    by (simp add: convert_dates_Inr)
  ultimately have "fr' = map (\<lambda>p. (fst p, frame_row kind (clock (fst p)) (snd p)))
      (enumerate 0 items)"
    by (simp add: o_def frame_row_def with_marriages_def)
  with items show ?thesis
    by (auto simp: df sort_values_def)
qed

lemma plain_frame:
  assumes ne: "items \<noteq> []" and ok: "\<forall>it\<in>set items. \<not> isl (process_item it)"
    and r: "list_all in_int64 items" and cf: "list_all clock_free items"
    and d: "\<forall>it\<in>set items. \<not> isl (item_date it)"
  shows "\<exists>df. get_data_as_df clock (Some \<lparr>data = Some items, other_keys = ks\<rparr>) = Inr (Some df)
           \<and> map snd df = sort_key sort_key_of (map (plain_row (plain_kind items)) items)"
proof -
  let ?W = "\<lambda>it. with_marriages (cell_of (plain_kind items) (Marriages (item_row it)))
                  (item_row it)"
  from ok have rows: "process_items items = Inr (map item_row items)"
    by (simp add: process_items_Inr item_row_def)
  from ok r have fr: "DataFrame (map item_row items) = Inr (enumerate 0 (map ?W items))"
    by (rule DataFrame_plain)
  have "convert_dates clock (enumerate 0 (map ?W items))
      = Inr (enumerate 0 (map (\<lambda>r. with_date
            (projr (strptime_Ym ((0, 0, 0), 0) (replace_M (Date r)))) r) (map ?W items)))"
  proof (rule convert_dates_enumerate)
    show "\<forall>r\<in>set (map ?W items). \<not> reads_clock (Date r)"
      using ok cf by (simp add: with_marriages_def list_all_iff item_row_clock_free)
    show "\<forall>r\<in>set (map ?W items). \<not> isl (strptime_Ym ((0, 0, 0), 0) (replace_M (Date r)))"
      using d by (simp add: with_marriages_def item_date_def)
  qed
  also have "map (\<lambda>r. with_date (projr (strptime_Ym ((0, 0, 0), 0) (replace_M (Date r)))) r)
        (map ?W items) = map (plain_row (plain_kind items)) items"
    by (simp add: plain_row_def frame_row_def with_marriages_def o_def)
  finally have "convert_dates clock (enumerate 0 (map ?W items))
      = Inr (enumerate 0 (map (plain_row (plain_kind items)) items))" .
  with ne rows fr have "get_data_as_df clock (Some \<lparr>data = Some items, other_keys = ks\<rparr>)
      = Inr (Some (sort_values (enumerate 0 (map (plain_row (plain_kind items)) items))))"
    by (simp add: get_data_as_df_def)
  then show ?thesis
    by (simp add: sort_values_def sort_key_snd)
qed

lemma frame_returned_plain:
  assumes a: "get_data_as_df clock (Some \<lparr>data = Some items, other_keys = ks\<rparr>) = Inr (Some df)"
    and cf: "list_all clock_free items"
  shows "items \<noteq> []" and "\<forall>it\<in>set items. \<not> isl (process_item it)"
    and "\<forall>it\<in>set items. \<not> isl (item_date it)"
proof -
  from a obtain items0 fr fr' where items0: "data \<lparr>data = Some items, other_keys = ks\<rparr> = Some items0"
    and ne: "items0 \<noteq> []" and ok: "\<forall>it\<in>set items0. \<not> isl (process_item it)"
    and fr: "DataFrame (map (\<lambda>it. projr (process_item it)) items0) = Inr fr"
    and fr': "convert_dates clock fr = Inr fr'"
    by (rule frame_returned)
  from items0 have eq: "items0 = items" by simp
  from ne eq show "items \<noteq> []" by simp
  from ok eq show ok': "\<forall>it\<in>set items. \<not> isl (process_item it)" by simp
  from fr' have p: "\<forall>p\<in>set fr. \<not> isl (strptime_Ym (clock (fst p)) (replace_M (Date (snd p))))"
    by (simp add: convert_dates_Inr)
  from fr have "map (\<lambda>p. Date (snd p)) fr = map Date (map (\<lambda>it. projr (process_item it)) items0)"
    by (rule DataFrame_dates)
  then have "set (map (\<lambda>p. Date (snd p)) fr)
      = set (map Date (map (\<lambda>it. projr (process_item it)) items0))" by simp
  then have dates: "(\<lambda>p. Date (snd p)) ` set fr = (\<lambda>it. Date (item_row it)) ` set items"
    by (simp add: eq image_image item_row_def)
  show "\<forall>it\<in>set items. \<not> isl (item_date it)"
  proof
    fix it
    assume it: "it \<in> set items"
    with dates obtain p where "p \<in> set fr" and "Date (snd p) = Date (item_row it)"
      by (metis (no_types, lifting) image_iff)
    with p have "\<not> isl (strptime_Ym (clock (fst p)) (replace_M (Date (item_row it))))"
      by auto
    moreover from it ok' cf have "\<not> reads_clock (Date (item_row it))"
      by (simp add: list_all_iff item_row_clock_free)
    then have "strptime_Ym (clock (fst p)) (replace_M (Date (item_row it)))
        = strptime_Ym ((0, 0, 0), 0) (replace_M (Date (item_row it)))"
      by (rule strptime_clock_free)
    ultimately show "\<not> isl (item_date it)"
      by (simp add: item_date_def)
  qed
qed

lemma order_independent:
  assumes a: "get_data_as_df clock (Some \<lparr>data = Some items, other_keys = ks\<rparr>) = Inr (Some df)"
    and m: "mset items' = mset items"
    and cf: "list_all clock_free items" and r: "list_all in_int64 items"
    and dist: "distinct (map (\<lambda>p. sort_key_of (snd p)) df)"
  shows "\<exists>df'. get_data_as_df clock' (Some \<lparr>data = Some items', other_keys = ks'\<rparr>) = Inr (Some df')
           \<and> map snd df' = map snd df"
proof -
  from a cf have ne: "items \<noteq> []" and ok: "\<forall>it\<in>set items. \<not> isl (process_item it)"
    and d: "\<forall>it\<in>set items. \<not> isl (item_date it)"
    by (rule frame_returned_plain)+
  from ne ok r cf d obtain df0 where
    "get_data_as_df clock (Some \<lparr>data = Some items, other_keys = ks\<rparr>) = Inr (Some df0)"
    and "map snd df0 = sort_key sort_key_of (map (plain_row (plain_kind items)) items)"
    using plain_frame by blast
  with a have df: "map snd df = sort_key sort_key_of (map (plain_row (plain_kind items)) items)"
    by simp
  from m have s: "set items' = set items" by (rule mset_eq_setD)
  then have kind: "plain_kind items' = plain_kind items"
    by (simp add: plain_kind_def)
  from s ne have ne': "items' \<noteq> []" by auto
  from s ok d cf r have ok': "\<forall>it\<in>set items'. \<not> isl (process_item it)"
    and d': "\<forall>it\<in>set items'. \<not> isl (item_date it)"
    and cf': "list_all clock_free items'" and r': "list_all in_int64 items'"
    by (simp_all add: list_all_iff)
  from ne' ok' r' cf' d' obtain df' where
    df': "get_data_as_df clock' (Some \<lparr>data = Some items', other_keys = ks'\<rparr>) = Inr (Some df')"
    and rows': "map snd df' = sort_key sort_key_of (map (plain_row (plain_kind items)) items')"
    using plain_frame [of items' clock' ks'] kind by auto
  let ?xs = "map (plain_row (plain_kind items)) items"
  let ?xs' = "map (plain_row (plain_kind items)) items'"
  from m have mm: "mset ?xs' = mset ?xs" by simp
  from dist have "distinct (map sort_key_of (map snd df))"
    by (simp add: o_def)
  then have "distinct (map sort_key_of (sort_key sort_key_of ?xs))"
    by (simp only: df)
  then have "distinct (map sort_key_of ?xs)"
    by (metis distinct_map distinct_sort set_sort)
  then have "inj_on sort_key_of (set ?xs)"
    by (simp only: distinct_map)
  with mm have inj: "inj_on sort_key_of (set ?xs')"
    by (metis mset_eq_setD)
  have "sort_key sort_key_of ?xs' = sort_key sort_key_of ?xs"
  proof (rule sort_key_inj_key_eq)
    show "mset ?xs' = mset (sort_key sort_key_of ?xs)" using mm by simp
    show "inj_on sort_key_of (set ?xs')" by (rule inj)
    show "sorted (map sort_key_of (sort_key sort_key_of ?xs))" by simp
  qed
  with rows' df have "map snd df' = map snd df" by simp
  with df' show ?thesis by blast
qed

lemma round_to_53_small: "a < 2 ^ 53 \<Longrightarrow> round_to_53 a = a"
  using bit_length_le [of a 53] by (simp add: round_to_53_def)

lemma float_value_42: "float_value 42 = 42"
  by (simp add: float_value_def round_to_53_small)

lemma py_int_42: "py_int ''42'' = Some 42"
  by (simp add: py_int_def strip_def is_space_def unsigned_value_def is_digit_def digit_val_def)

lemma py_int_1_2: "py_int ''1'' = Some 1" "py_int ''2'' = Some 2"
  by (simp_all add: py_int_def strip_def is_space_def unsigned_value_def is_digit_def
      digit_val_def)

lemma py_int_colon: "py_int '':'' = None"
  by (simp add: py_int_def strip_def is_space_def unsigned_value_def is_digit_def)

lemma column_42_None: "convert_column [Some 42, None] = Inr Float64"
  using convert_column_in_range [of "[Some 42, None]"]
  by (simp add: INT64_MIN_def INT64_MAX_def)

lemma column_1_2: "convert_column [Some 1, Some 2] = Inr Exact"
  "convert_column [Some 2, Some 1] = Inr Exact"
  using convert_column_in_range [of "[Some 1, Some 2]"]
    convert_column_in_range [of "[Some 2, Some 1]"]
  by (simp_all add: INT64_MIN_def INT64_MAX_def)

lemma frame_19_18:
  "get_data_as_df clock (Some \<lparr>data = Some
       [\<lparr>key = [''2023M01'', ''19''], values_item = [''42'']\<rparr>,
        \<lparr>key = [''2023M01'', ''18''], values_item = ['':'']\<rparr>], other_keys = []\<rparr>)
   = Inr (Some
       [(1, \<lparr>Date = Some ((2023, 1, 1), 0), Municipality_Code = ''18'',
              Municipality = ''Prishtin'' @ [CHR 0xEB], Marriages = NaN\<rparr>),
        (0, \<lparr>Date = Some ((2023, 1, 1), 0), Municipality_Code = ''19'',
              Municipality = ''Prizren'', Marriages = FloatCell 42\<rparr>)])"
  by (simp add: get_data_as_df_def process_item_def subscript_def py_int_42 names_18_19
      DataFrame_def column_42_None with_marriages_def float_value_42
      strptime_2023M01 with_date_def sort_values_def sort_key_of_def
      less_eq_prod_def less_prod_def prishtine_before_prizren prizren_after_prishtine)

lemma entries_19_18_plain:
  "list_all clock_free
     [\<lparr>key = [''2023M01'', ''19''], values_item = [''42'']\<rparr>,
      \<lparr>key = [''2023M01'', ''18''], values_item = ['':'']\<rparr>]"
  "list_all in_int64
     [\<lparr>key = [''2023M01'', ''19''], values_item = [''42'']\<rparr>,
      \<lparr>key = [''2023M01'', ''18''], values_item = ['':'']\<rparr>]"
  by (simp_all add: clock_free_def reads_clock_def in_int64_def py_int_42 py_int_colon
      INT64_MIN_def INT64_MAX_def)

text \<open>
  Claim C7, as the code has it. A frame that comes back holds the row of each entry under
  the label of the entry's position, sorted ascending by (date, municipality name) and,
  among rows with the same date and name, by label: rows with no date (an empty period or
  one pandas takes for a missing date) come after all dated rows, and entries with equal
  date and name keep their source order. The result is the same at any time when no
  period is \<^verbatim>\<open>now\<close> or \<^verbatim>\<open>today\<close>. The sequence of rows, labels apart, does not depend on the
  order of the entries when, moreover, the rows have pairwise distinct (date, name) and
  the metric values lie in the signed 64-bit range.
\<close>

theorem sorted_stable_and_order_independent:
  "(get_data_as_df clock (Some resp) = Inr (Some df) \<longrightarrow>
      sorted (map (\<lambda>p. (sort_key_of (snd p), fst p)) df)
      \<and> (\<exists>items kind. data resp = Some items
            \<and> mset df = mset (map (\<lambda>p. (fst p, frame_row kind (clock (fst p)) (snd p)))
                               (enumerate 0 items))))
   \<and> ((\<forall>items. data resp = Some items \<longrightarrow> list_all clock_free items) \<longrightarrow>
        get_data_as_df clock (Some resp) = get_data_as_df clock' (Some resp))
   \<and> (get_data_as_df clock (Some \<lparr>data = Some items, other_keys = ks\<rparr>) = Inr (Some df)
        \<and> mset items' = mset items \<and> list_all clock_free items \<and> list_all in_int64 items
        \<and> distinct (map (\<lambda>p. sort_key_of (snd p)) df) \<longrightarrow>
        (\<exists>df'. get_data_as_df clock' (Some \<lparr>data = Some items', other_keys = ks'\<rparr>)
                 = Inr (Some df')
               \<and> map snd df' = map snd df))"
proof (intro conjI impI)
  assume "get_data_as_df clock (Some resp) = Inr (Some df)"
  then show "sorted (map (\<lambda>p. (sort_key_of (snd p), fst p)) df)"
    by (rule frame_sorted_by_key_and_label)
next
  assume "get_data_as_df clock (Some resp) = Inr (Some df)"
  then show "\<exists>items kind. data resp = Some items
            \<and> mset df = mset (map (\<lambda>p. (fst p, frame_row kind (clock (fst p)) (snd p)))
                               (enumerate 0 items))"
    by (rule frame_rows_of_entries)
next
  assume "\<forall>items. data resp = Some items \<longrightarrow> list_all clock_free items"
  then show "get_data_as_df clock (Some resp) = get_data_as_df clock' (Some resp)"
    by (rule clock_free_result)
next
  assume "get_data_as_df clock (Some \<lparr>data = Some items, other_keys = ks\<rparr>) = Inr (Some df)
        \<and> mset items' = mset items \<and> list_all clock_free items \<and> list_all in_int64 items
        \<and> distinct (map (\<lambda>p. sort_key_of (snd p)) df)"
  then show "\<exists>df'. get_data_as_df clock' (Some \<lparr>data = Some items', other_keys = ks'\<rparr>)
                 = Inr (Some df')
               \<and> map snd df' = map snd df"
    using order_independent [of clock items ks df items' clock' ks'] by blast
qed

theorem sorted_stable_and_order_independent_witness:
  "get_data_as_df (\<lambda>i. ((2026, 1, 1), i)) (Some \<lparr>data = Some
       [\<lparr>key = [''2023M01'', ''19''], values_item = [''42'']\<rparr>,
        \<lparr>key = [''2023M01'', ''18''], values_item = ['':'']\<rparr>], other_keys = []\<rparr>)
   = Inr (Some
       [(1, \<lparr>Date = Some ((2023, 1, 1), 0), Municipality_Code = ''18'',
              Municipality = ''Prishtin'' @ [CHR 0xEB], Marriages = NaN\<rparr>),
        (0, \<lparr>Date = Some ((2023, 1, 1), 0), Municipality_Code = ''19'',
              Municipality = ''Prizren'', Marriages = FloatCell 42\<rparr>)])
   \<and> mset [\<lparr>key = [''2023M01'', ''18''], values_item = ['':'']\<rparr>,
            \<lparr>key = [''2023M01'', ''19''], values_item = [''42'']\<rparr>]
       = mset [\<lparr>key = [''2023M01'', ''19''], values_item = [''42'']\<rparr>,
               \<lparr>key = [''2023M01'', ''18''], values_item = ['':'']\<rparr>]
   \<and> list_all clock_free
       [\<lparr>key = [''2023M01'', ''19''], values_item = [''42'']\<rparr>,
        \<lparr>key = [''2023M01'', ''18''], values_item = ['':'']\<rparr>]
   \<and> list_all in_int64
       [\<lparr>key = [''2023M01'', ''19''], values_item = [''42'']\<rparr>,
        \<lparr>key = [''2023M01'', ''18''], values_item = ['':'']\<rparr>]
   \<and> distinct (map (\<lambda>p. sort_key_of (snd p))
       [(1, \<lparr>Date = Some ((2023, 1, 1), 0), Municipality_Code = ''18'',
              Municipality = ''Prishtin'' @ [CHR 0xEB], Marriages = NaN\<rparr>),
        (0, \<lparr>Date = Some ((2023, 1, 1), 0), Municipality_Code = ''19'',
              Municipality = ''Prizren'', Marriages = FloatCell 42\<rparr>)])
   \<and> sorted (map (\<lambda>p. (sort_key_of (snd p), fst p))
       [(1, \<lparr>Date = Some ((2023, 1, 1), 0), Municipality_Code = ''18'',
              Municipality = ''Prishtin'' @ [CHR 0xEB], Marriages = NaN\<rparr>),
        (0, \<lparr>Date = Some ((2023, 1, 1), 0), Municipality_Code = ''19'',
              Municipality = ''Prizren'', Marriages = FloatCell 42\<rparr>)])
   \<and> (\<exists>df'. get_data_as_df (\<lambda>i. ((2027, 6, 30), 5)) (Some \<lparr>data = Some
         [\<lparr>key = [''2023M01'', ''18''], values_item = ['':'']\<rparr>,
          \<lparr>key = [''2023M01'', ''19''], values_item = [''42'']\<rparr>],
          other_keys = [''columns'']\<rparr>) = Inr (Some df')
        \<and> map snd df'
          = [\<lparr>Date = Some ((2023, 1, 1), 0), Municipality_Code = ''18'',
               Municipality = ''Prishtin'' @ [CHR 0xEB], Marriages = NaN\<rparr>,
             \<lparr>Date = Some ((2023, 1, 1), 0), Municipality_Code = ''19'',
               Municipality = ''Prizren'', Marriages = FloatCell 42\<rparr>])"
proof -
  have d: "distinct (map (\<lambda>p. sort_key_of (snd p))
       [(1, \<lparr>Date = Some ((2023, 1, 1), 0), Municipality_Code = ''18'',
              Municipality = ''Prishtin'' @ [CHR 0xEB], Marriages = NaN\<rparr>),
        (0::nat, \<lparr>Date = Some ((2023, 1, 1), 0), Municipality_Code = ''19'',
              Municipality = ''Prizren'', Marriages = FloatCell 42\<rparr>)])"
    by (simp add: sort_key_of_def)
  have m: "mset [\<lparr>key = [''2023M01'', ''18''], values_item = ['':'']\<rparr>,
            \<lparr>key = [''2023M01'', ''19''], values_item = [''42'']\<rparr>]
       = mset [\<lparr>key = [''2023M01'', ''19''], values_item = [''42'']\<rparr>,
               \<lparr>key = [''2023M01'', ''18''], values_item = ['':'']\<rparr>]"
    by simp
  from sorted_stable_and_order_independent
    [of "\<lambda>i. ((2026, 1, 1), i)"
      "\<lparr>data = Some
         [\<lparr>key = [''2023M01'', ''19''], values_item = [''42'']\<rparr>,
          \<lparr>key = [''2023M01'', ''18''], values_item = ['':'']\<rparr>], other_keys = []\<rparr>"
      "[(1, \<lparr>Date = Some ((2023, 1, 1), 0), Municipality_Code = ''18'',
              Municipality = ''Prishtin'' @ [CHR 0xEB], Marriages = NaN\<rparr>),
        (0, \<lparr>Date = Some ((2023, 1, 1), 0), Municipality_Code = ''19'',
              Municipality = ''Prizren'', Marriages = FloatCell 42\<rparr>)]"
      "\<lambda>i. ((2027, 6, 30), 5)"
      "[\<lparr>key = [''2023M01'', ''19''], values_item = [''42'']\<rparr>,
        \<lparr>key = [''2023M01'', ''18''], values_item = ['':'']\<rparr>]"
      "[]"
      "[\<lparr>key = [''2023M01'', ''18''], values_item = ['':'']\<rparr>,
        \<lparr>key = [''2023M01'', ''19''], values_item = [''42'']\<rparr>]"
      "[''columns'']"]
    frame_19_18 [of "\<lambda>i. ((2026, 1, 1), i)"] entries_19_18_plain d m
  show ?thesis by simp
qed

text \<open>The claim as stated fails for two entries with the same period and code and
  different values: the two orders of the entries give two different sequences of rows.\<close>

theorem equal_keys_counterexample:
  "mset [\<lparr>key = [''2023M01'', ''18''], values_item = [''2'']\<rparr>,
         \<lparr>key = [''2023M01'', ''18''], values_item = [''1'']\<rparr>]
     = mset [\<lparr>key = [''2023M01'', ''18''], values_item = [''1'']\<rparr>,
             \<lparr>key = [''2023M01'', ''18''], values_item = [''2'']\<rparr>]
   \<and> get_data_as_df (\<lambda>i. ((2026, 1, 1), i)) (Some \<lparr>data = Some
         [\<lparr>key = [''2023M01'', ''18''], values_item = [''1'']\<rparr>,
          \<lparr>key = [''2023M01'', ''18''], values_item = [''2'']\<rparr>], other_keys = []\<rparr>)
     = Inr (Some
         [(0, \<lparr>Date = Some ((2023, 1, 1), 0), Municipality_Code = ''18'',
                Municipality = ''Prishtin'' @ [CHR 0xEB], Marriages = IntCell 1\<rparr>),
          (1, \<lparr>Date = Some ((2023, 1, 1), 0), Municipality_Code = ''18'',
                Municipality = ''Prishtin'' @ [CHR 0xEB], Marriages = IntCell 2\<rparr>)])
   \<and> get_data_as_df (\<lambda>i. ((2026, 1, 1), i)) (Some \<lparr>data = Some
         [\<lparr>key = [''2023M01'', ''18''], values_item = [''2'']\<rparr>,
          \<lparr>key = [''2023M01'', ''18''], values_item = [''1'']\<rparr>], other_keys = []\<rparr>)
     = Inr (Some
         [(0, \<lparr>Date = Some ((2023, 1, 1), 0), Municipality_Code = ''18'',
                Municipality = ''Prishtin'' @ [CHR 0xEB], Marriages = IntCell 2\<rparr>),
          (1, \<lparr>Date = Some ((2023, 1, 1), 0), Municipality_Code = ''18'',
                Municipality = ''Prishtin'' @ [CHR 0xEB], Marriages = IntCell 1\<rparr>)])"
  by (simp add: get_data_as_df_def process_item_def subscript_def py_int_1_2 names_18_19
      DataFrame_def column_1_2 with_marriages_def strptime_2023M01 with_date_def
      sort_values_def sort_key_of_def)

end
